theory Spec2Isabelle
  imports Complex_Main
begin

section \<open>Data model of \<open>src/servers/vision.py\<close>\<close>

text \<open>
  Python floats (timestamps, ages, confidences) are modelled as real numbers; the
  non-finite floats (\<open>inf\<close>, \<open>nan\<close>) are outside the model. A \<open>PIL\<close> image is
  opaque to the code except for its \<open>size\<close>: \<open>pixels\<close> stands for its content.
  Field names follow the source, with a suffix where two classes share a name or where
  the name is taken in HOL.
\<close>

type_synonym region = "int \<times> int \<times> int \<times> int"

record raw_image =
  pixels :: nat
  img_size :: "int \<times> int"

datatype py_error =
  IndexError | KeyError | ValueError | TypeError | ImportError | FileNotFoundError

text \<open>
  One cell of the \<open>conf\<close> column of a \<open>pytesseract\<close> table: a number, a string the
  engine left unconverted, or another object, on which \<open>float()\<close> raises \<open>TypeError\<close>.
\<close>

datatype conf_value = ConfNum real | ConfStr string | ConfNone

text \<open>
  The table \<open>pytesseract.image_to_data(..., output_type=Output.DICT)\<close> returns: a dict
  of parallel columns, of which the code reads these six. The columns are separate
  lists, as in the source, so they may differ in length. A table always carries its
  column keys, so as a dict it is never empty (it is truthy).
\<close>

record ocr_table =
  text_col :: "string list"
  conf_col :: "conf_value list"
  left_col :: "int list"
  top_col :: "int list"
  width_col :: "int list"
  height_col :: "int list"

record cached_frame =
  image_cf :: raw_image
  timestamp :: real
  width_cf :: int
  height_cf :: int
  ocr_data :: "ocr_table option"
  grayscale :: "raw_image option"

text \<open>\<open>CachedFrame.age_ms\<close> and \<open>CachedFrame.is_stale\<close>; \<open>now\<close> is what \<open>time.time()\<close> returns.\<close>

definition age_ms :: "real \<Rightarrow> cached_frame \<Rightarrow> real" where
  "age_ms now f = (now - timestamp f) * 1000"

definition is_stale :: "real \<Rightarrow> cached_frame \<Rightarrow> real \<Rightarrow> bool" where
  "is_stale now f max_age_ms = (age_ms now f > max_age_ms)"

text \<open>
  The state the module works on. \<open>CachedFrame\<close> objects are mutable and shared by
  reference (\<open>capture\<close> returns the very object the cache holds), so they live in a
  store: \<open>objs\<close> lists the objects created so far and a reference is an index into it.
  \<open>frame\<close> is the slot \<open>_frame_cache._frame\<close>. \<open>screenshots\<close> logs every call of
  \<open>pyautogui.screenshot\<close> with its \<open>region\<close> argument. The lock is not modelled: every
  method below is one critical section and runs atomically.
\<close>

record vision_state =
  objs :: "cached_frame list"
  frame :: "nat option"
  screenshots :: "region option list"

definition init_state :: vision_state where
  "init_state = \<lparr>objs = [], frame = None, screenshots = []\<rparr>"

definition wf_state :: "vision_state \<Rightarrow> bool" where
  "wf_state st = (case frame st of None \<Rightarrow> True | Some r \<Rightarrow> r < length (objs st))"

section \<open>FrameCache\<close>

text \<open>
  \<open>FrameCache.capture\<close>. \<open>t_check\<close> is the clock reading inside \<open>is_stale\<close> (read only
  when \<open>force\<close> is unset and a frame is stored), \<open>img\<close> the image
  \<open>pyautogui.screenshot\<close> returns and \<open>t_new\<close> the clock reading that stamps the new
  frame. A region is a 4-tuple, hence truthy whenever it is set.
\<close>

definition new_frame :: "region option \<Rightarrow> raw_image \<Rightarrow> real \<Rightarrow> cached_frame" where
  "new_frame region img t_new =
     (let (width, height) = (case region of Some (x, y, w, h) \<Rightarrow> (w, h) | None \<Rightarrow> img_size img)
      in \<lparr>image_cf = img, timestamp = t_new, width_cf = width, height_cf = height,
          ocr_data = None, grayscale = None\<rparr>)"

definition fresh_capture ::
  "vision_state \<Rightarrow> region option \<Rightarrow> raw_image \<Rightarrow> real \<Rightarrow> nat \<times> vision_state" where
  "fresh_capture st region img t_new =
     (let r = length (objs st);
          st' = st\<lparr>objs := objs st @ [new_frame region img t_new],
                   screenshots := screenshots st @ [region]\<rparr>
      in (r, if region = None then st'\<lparr>frame := Some r\<rparr> else st'))"

definition capture ::
  "vision_state \<Rightarrow> region option \<Rightarrow> bool \<Rightarrow> real \<Rightarrow> raw_image \<Rightarrow> real \<Rightarrow> nat \<times> vision_state" where
  "capture st region force t_check img t_new =
     (case frame st of
        Some r \<Rightarrow>
          if \<not> force \<and> \<not> is_stale t_check (objs st ! r) 500 \<and> region = None
          then (r, st)
          else fresh_capture st region img t_new
      | None \<Rightarrow> fresh_capture st region img t_new)"

definition get_cached :: "vision_state \<Rightarrow> real \<Rightarrow> real \<Rightarrow> nat option" where
  "get_cached st max_age_ms now =
     (case frame st of
        Some r \<Rightarrow> if \<not> is_stale now (objs st ! r) max_age_ms then Some r else None
      | None \<Rightarrow> None)"

definition invalidate :: "vision_state \<Rightarrow> vision_state" where
  "invalidate st = st\<lparr>frame := None\<rparr>"

definition cache_ocr_data :: "vision_state \<Rightarrow> ocr_table \<Rightarrow> vision_state" where
  "cache_ocr_data st data =
     (case frame st of
        Some r \<Rightarrow> st\<lparr>objs := (objs st)[r := (objs st ! r)\<lparr>ocr_data := Some data\<rparr>]\<rparr>
      | None \<Rightarrow> st)"

definition get_cached_ocr :: "vision_state \<Rightarrow> real \<Rightarrow> ocr_table option" where
  "get_cached_ocr st now =
     (case frame st of
        Some r \<Rightarrow> if \<not> is_stale now (objs st ! r) 500 then ocr_data (objs st ! r) else None
      | None \<Rightarrow> None)"

text \<open>
  What may change the state between two calls of \<open>capture\<close>: a call of one of the
  methods of \<open>FrameCache\<close> that write (\<open>get_cached\<close> and \<open>get_cached_ocr\<close> only read),
  with its arguments and the readings it takes, or a screenshot taken directly,
  as \<open>find_text_on_screen\<close> and the region branch of \<open>capture_screenshot\<close> do.
  \<open>run_calls\<close> performs such calls one after the other.
\<close>

datatype cache_call =
    Capture_call "region option" bool real raw_image real
  | Invalidate_call
  | Cache_ocr_data_call ocr_table
  | Screenshot_call "region option"

fun do_call :: "vision_state \<Rightarrow> cache_call \<Rightarrow> vision_state" where
  "do_call st (Capture_call region force now img t_new) = snd (capture st region force now img t_new)"
| "do_call st Invalidate_call = invalidate st"
| "do_call st (Cache_ocr_data_call data) = cache_ocr_data st data"
| "do_call st (Screenshot_call region) = st\<lparr>screenshots := screenshots st @ [region]\<rparr>"

definition run_calls :: "vision_state \<Rightarrow> cache_call list \<Rightarrow> vision_state" where
  "run_calls st calls = foldl do_call st calls"

section \<open>Geometry and match types\<close>

record bounding_box =
  x_bb :: int
  y_bb :: int
  width_bb :: int
  height_bb :: int

text \<open>\<open>BoundingBox.center\<close>; Python's \<open>//\<close> on integers is floor division, as \<open>div\<close> is.\<close>

definition center :: "bounding_box \<Rightarrow> int \<times> int" where
  "center b = (x_bb b + width_bb b div 2, y_bb b + height_bb b div 2)"

record element_match =
  bbox :: bounding_box
  confidence :: real
  text_em :: "string option"

text \<open>The dicts \<open>_ocr_data_to_matches\<close> builds: \<open>bbox\<close> with six keys, and the match itself.\<close>

record bbox_dict =
  x_d :: int
  y_d :: int
  width_d :: int
  height_d :: int
  center_x_d :: int
  center_y_d :: int

record match_dict =
  text_d :: string
  confidence_d :: real
  bbox_d :: bbox_dict

section \<open>Python helpers\<close>

text \<open>
  Exceptions are values: a computation returns \<open>Inl e\<close> when it raises \<open>e\<close>.
  \<open>bind_e\<close> sequences two computations, \<open>try_except\<close> is a \<open>try\<close> block whose
  \<open>except\<close> clause names the exceptions in \<open>caught\<close> and yields \<open>handler\<close>, and
  \<open>for_range\<close> is a \<open>for\<close> loop that appends to a list: \<open>body i acc\<close> is one
  iteration.
\<close>

definition bind_e :: "py_error + 'a \<Rightarrow> ('a \<Rightarrow> py_error + 'b) \<Rightarrow> py_error + 'b" where
  "bind_e m f = (case m of Inl e \<Rightarrow> Inl e | Inr v \<Rightarrow> f v)"

definition try_except :: "py_error + 'a \<Rightarrow> py_error list \<Rightarrow> 'a \<Rightarrow> py_error + 'a" where
  "try_except body caught handler =
     (case body of Inl e \<Rightarrow> if e \<in> set caught then Inr handler else Inl e | Inr v \<Rightarrow> Inr v)"

fun for_range :: "(nat \<Rightarrow> 'a list \<Rightarrow> py_error + 'a list) \<Rightarrow> nat list \<Rightarrow> 'a list \<Rightarrow> py_error + 'a list" where
  "for_range body [] acc = Inr acc"
| "for_range body (i # is) acc =
     (case body i acc of Inl e \<Rightarrow> Inl e | Inr acc' \<Rightarrow> for_range body is acc')"

text \<open>List indexing with an index from \<open>range\<close> (never negative).\<close>

definition idx :: "'a list \<Rightarrow> nat \<Rightarrow> py_error + 'a" where
  "idx xs i = (if i < length xs then Inr (xs ! i) else Inl IndexError)"

text \<open>
  \<open>float(v)\<close> on a cell of the \<open>conf\<close> column. What \<open>float\<close> makes of a string is the
  parameter \<open>pf\<close> (\<open>None\<close> when it raises \<open>ValueError\<close>).
\<close>

definition py_float :: "(string \<Rightarrow> real option) \<Rightarrow> conf_value \<Rightarrow> py_error + real" where
  "py_float pf v =
     (case v of
        ConfNum r \<Rightarrow> Inr r
      | ConfStr s \<Rightarrow> (case pf s of Some r \<Rightarrow> Inr r | None \<Rightarrow> Inl ValueError)
      | ConfNone \<Rightarrow> Inl TypeError)"

text \<open>
  Strings are lists of code points below 256 (type \<open>char\<close>). On these, \<open>str.lower\<close>
  shifts \<open>A\<close>--\<open>Z\<close> and the upper-case letters of the range 192--222 by 32, and
  \<open>str.strip()\<close> removes from both ends the characters \<open>str.isspace\<close> accepts.
\<close>

definition lower_char :: "char \<Rightarrow> char" where
  "lower_char c =
     (let n = (of_char c :: nat)
      in if (65 \<le> n \<and> n \<le> 90) \<or> (192 \<le> n \<and> n \<le> 214) \<or> (216 \<le> n \<and> n \<le> 222)
         then char_of (n + 32) else c)"

definition lower :: "string \<Rightarrow> string" where
  "lower s = map lower_char s"

definition isspace :: "char \<Rightarrow> bool" where
  "isspace c =
     (let n = (of_char c :: nat)
      in (9 \<le> n \<and> n \<le> 13) \<or> (28 \<le> n \<and> n \<le> 32) \<or> n = 133 \<or> n = 160)"

definition strip :: "string \<Rightarrow> string" where
  "strip s = rev (dropWhile isspace (rev (dropWhile isspace s)))"

text \<open>\<open>s in w\<close> on strings: \<open>s\<close> occurs in \<open>w\<close> as a contiguous substring.\<close>

fun str_in :: "string \<Rightarrow> string \<Rightarrow> bool" where
  "str_in s [] = (s = [])"
| "str_in s (c # cs) = (take (length s) (c # cs) = s \<or> str_in s cs)"

text \<open>
  \<open>sorted(xs, key=key, reverse=reverse)\<close>. Python's sort is stable; with
  \<open>reverse=True\<close> it reverses the list, sorts it stably in ascending order and
  reverses the result.
\<close>

definition sorted_py :: "('a \<Rightarrow> real) \<Rightarrow> bool \<Rightarrow> 'a list \<Rightarrow> 'a list" where
  "sorted_py key reverse xs =
     (if reverse then rev (sort_key key (rev xs)) else sort_key key xs)"

section \<open>Template matching\<close>

text \<open>
  \<open>pyautogui.locateAllOnScreen\<close> is a collaborator: \<open>locate\<close> gives, for its three
  arguments, the boxes it yields and whether \<open>ImageNotFoundException\<close> is raised
  (at the call or while the loop draws from it). The \<open>except\<close> clause then returns
  the empty list.
\<close>

record box =
  left_bx :: int
  top_bx :: int
  width_bx :: int
  height_bx :: int

record locate_run =
  yielded :: "box list"
  not_found :: bool

definition find_template_on_screen ::
  "(string \<Rightarrow> real \<Rightarrow> bool \<Rightarrow> locate_run) \<Rightarrow> string \<Rightarrow> real \<Rightarrow> bool \<Rightarrow> element_match list" where
  "find_template_on_screen locate template_path confidence_arg grayscale_arg =
     (let locations = locate template_path confidence_arg grayscale_arg
      in if not_found locations then []
         else map (\<lambda>loc.
                \<lparr>bbox = \<lparr>x_bb = left_bx loc, y_bb = top_bx loc,
                          width_bb = width_bx loc, height_bb = height_bx loc\<rparr>,
                 confidence = confidence_arg, text_em = None\<rparr>) (yielded locations))"

section \<open>OCR queries\<close>

text \<open>
  \<open>_configure_tesseract\<close>: whether \<open>import pytesseract\<close> succeeds and what
  \<open>_resolve_tesseract_cmd\<close> finds are inputs from the installation.
\<close>

record tesseract_env =
  importable :: bool
  resolved_cmd :: "string option"

definition configure_tesseract :: "tesseract_env \<Rightarrow> py_error + string" where
  "configure_tesseract tess =
     (if \<not> importable tess then Inl ImportError
      else case resolved_cmd tess of
             None \<Rightarrow> Inl FileNotFoundError
           | Some cmd \<Rightarrow> if cmd = [] then Inl FileNotFoundError else Inr cmd)"

text \<open>
  The \<open>try\<close> block around \<open>conf = float(data["conf"][i]) / 100.0\<close>, which all
  three loops share; \<open>caught\<close> lists the exceptions of its \<open>except\<close> clause, whose
  handler sets \<open>conf = 0.0\<close>.
\<close>

definition token_conf ::
  "(string \<Rightarrow> real option) \<Rightarrow> ocr_table \<Rightarrow> nat \<Rightarrow> py_error list \<Rightarrow> py_error + real" where
  "token_conf pf data i caught =
     try_except
       (bind_e (idx (conf_col data) i) (\<lambda>c.
        bind_e (py_float pf c) (\<lambda>v. Inr (v / 100))))
       caught 0"

text \<open>
  The engine \<open>pytesseract.image_to_data\<close> is the parameter \<open>ocr\<close>: image, language and
  the page segmentation mode of the \<open>config\<close> string (\<open>None\<close> when no \<open>config\<close> is
  passed).

  One iteration of the loop of \<open>find_text_on_screen\<close> (lines 347--365). The \<open>except\<close>
  clause names \<open>ValueError\<close> only.
\<close>

definition find_text_body ::
  "(string \<Rightarrow> real option) \<Rightarrow> ocr_table \<Rightarrow> string \<Rightarrow> real \<Rightarrow> int \<Rightarrow> int \<Rightarrow>
   nat \<Rightarrow> element_match list \<Rightarrow> py_error + element_match list" where
  "find_text_body pf data search_lower min_confidence offset_x offset_y i matches =
     bind_e (idx (text_col data) i) (\<lambda>word.
       if word = [] then Inr matches
       else if str_in search_lower (lower word) then
         bind_e (token_conf pf data i [ValueError]) (\<lambda>conf.
           if conf \<ge> min_confidence then
             bind_e (idx (left_col data) i) (\<lambda>l.
             bind_e (idx (top_col data) i) (\<lambda>t.
             bind_e (idx (width_col data) i) (\<lambda>w.
             bind_e (idx (height_col data) i) (\<lambda>h.
               Inr (matches @
                 [\<lparr>bbox = \<lparr>x_bb = offset_x + l, y_bb = offset_y + t,
                            width_bb = w, height_bb = h\<rparr>,
                   confidence = conf, text_em = Some word\<rparr>])))))
           else Inr matches)
       else Inr matches)"

text \<open>
  \<open>find_text_on_screen\<close>: \<open>img\<close> is the image \<open>pyautogui.screenshot\<close> returns. The
  function does not mention \<open>_frame_cache\<close>.
\<close>

definition find_text_on_screen ::
  "(string \<Rightarrow> real option) \<Rightarrow> tesseract_env \<Rightarrow> (raw_image \<Rightarrow> string \<Rightarrow> int option \<Rightarrow> ocr_table) \<Rightarrow>
   vision_state \<Rightarrow> string \<Rightarrow> string \<Rightarrow> region option \<Rightarrow> real \<Rightarrow> raw_image \<Rightarrow>
   (py_error + element_match list) \<times> vision_state" where
  "find_text_on_screen pf tess ocr st text_arg lang region min_confidence img =
     (case configure_tesseract tess of
        Inl e \<Rightarrow> (Inl e, st)
      | Inr cmd \<Rightarrow>
          let st' = st\<lparr>screenshots := screenshots st @ [region]\<rparr>;
              (offset_x, offset_y) = (case region of Some (x, y, w, h) \<Rightarrow> (x, y) | None \<Rightarrow> (0, 0));
              data = ocr img lang None;
              search_lower = lower text_arg;
              n_boxes = length (text_col data)
          in (bind_e (for_range
                        (find_text_body pf data search_lower min_confidence offset_x offset_y)
                        [0..<n_boxes] [])
                (\<lambda>matches. Inr (sorted_py confidence True matches)), st'))"

definition find_best_text_match ::
  "(string \<Rightarrow> real option) \<Rightarrow> tesseract_env \<Rightarrow> (raw_image \<Rightarrow> string \<Rightarrow> int option \<Rightarrow> ocr_table) \<Rightarrow>
   vision_state \<Rightarrow> string \<Rightarrow> string \<Rightarrow> region option \<Rightarrow> real \<Rightarrow> raw_image \<Rightarrow>
   (py_error + element_match option) \<times> vision_state" where
  "find_best_text_match pf tess ocr st text_arg lang region min_confidence img =
     (let (res, st') = find_text_on_screen pf tess ocr st text_arg lang region min_confidence img
      in (bind_e res (\<lambda>matches. Inr (case matches of [] \<Rightarrow> None | m # ms \<Rightarrow> Some m)), st'))"

text \<open>One iteration of the loop of \<open>_ocr_data_to_matches\<close> (lines 431--458).\<close>

definition ocr_data_body ::
  "(string \<Rightarrow> real option) \<Rightarrow> ocr_table \<Rightarrow> real \<Rightarrow> nat \<Rightarrow> match_dict list \<Rightarrow> py_error + match_dict list" where
  "ocr_data_body pf data min_confidence i results =
     bind_e (idx (text_col data) i) (\<lambda>word.
       if word = [] \<or> strip word = [] then Inr results
       else
         bind_e (token_conf pf data i [ValueError, TypeError]) (\<lambda>conf.
           if conf < min_confidence then Inr results
           else
             bind_e (idx (left_col data) i) (\<lambda>x.
             bind_e (idx (top_col data) i) (\<lambda>y.
             bind_e (idx (width_col data) i) (\<lambda>w.
             bind_e (idx (height_col data) i) (\<lambda>h.
               Inr (results @
                 [\<lparr>text_d = word, confidence_d = conf,
                   bbox_d = \<lparr>x_d = x, y_d = y, width_d = w, height_d = h,
                              center_x_d = x + w div 2, center_y_d = y + h div 2\<rparr>\<rparr>])))))))"

definition ocr_data_to_matches ::
  "(string \<Rightarrow> real option) \<Rightarrow> ocr_table \<Rightarrow> real \<Rightarrow> py_error + match_dict list" where
  "ocr_data_to_matches pf data min_confidence =
     (let n_boxes = length (text_col data)
      in for_range (ocr_data_body pf data min_confidence) [0..<n_boxes] [])"

text \<open>
  \<open>ocr_full_screen\<close>. Its last three statements (lines 411--423) are \<open>ocr_attach\<close>:
  the engine runs on the image of the local variable \<open>frame\<close> (the reference \<open>r\<close>),
  outside the lock, and \<open>cache_ocr_data\<close> then takes the lock again. Another thread
  may work on the cache between \<open>capture\<close> and \<open>ocr_attach\<close>; \<open>ocr_full_screen\<close> is
  the run in which none does. \<open>_ocr_data_to_matches\<close> is called with its default
  \<open>min_confidence = 0.0\<close>. With \<open>force=True\<close> \<open>capture\<close> does not read the clock for a
  staleness check.
\<close>

definition ocr_attach ::
  "(string \<Rightarrow> real option) \<Rightarrow> (raw_image \<Rightarrow> string \<Rightarrow> int option \<Rightarrow> ocr_table) \<Rightarrow>
   vision_state \<Rightarrow> nat \<Rightarrow> string \<Rightarrow> int \<Rightarrow> (py_error + match_dict list) \<times> vision_state" where
  "ocr_attach pf ocr st r lang psm =
     (let data = ocr (image_cf (objs st ! r)) lang (Some psm);
          st' = cache_ocr_data st data
      in (ocr_data_to_matches pf data 0, st'))"

definition ocr_full_screen ::
  "(string \<Rightarrow> real option) \<Rightarrow> tesseract_env \<Rightarrow> (raw_image \<Rightarrow> string \<Rightarrow> int option \<Rightarrow> ocr_table) \<Rightarrow>
   vision_state \<Rightarrow> string \<Rightarrow> bool \<Rightarrow> int \<Rightarrow> real \<Rightarrow> raw_image \<Rightarrow> real \<Rightarrow>
   (py_error + match_dict list) \<times> vision_state" where
  "ocr_full_screen pf tess ocr st lang use_cache psm now img t_new =
     (case (if use_cache then get_cached_ocr st now else None) of
        Some cached \<Rightarrow> (ocr_data_to_matches pf cached 0, st)
      | None \<Rightarrow>
          (case configure_tesseract tess of
             Inl e \<Rightarrow> (Inl e, st)
           | Inr cmd \<Rightarrow>
               let (r, st1) = capture st None True now img t_new
               in ocr_attach pf ocr st1 r lang psm))"

text \<open>One iteration of the loop of \<open>find_text_in_ocr_cache\<close> (lines 483--501).\<close>

definition cache_text_body ::
  "(string \<Rightarrow> real option) \<Rightarrow> ocr_table \<Rightarrow> string \<Rightarrow> real \<Rightarrow>
   nat \<Rightarrow> element_match list \<Rightarrow> py_error + element_match list" where
  "cache_text_body pf cached search_lower min_confidence i matches =
     bind_e (idx (text_col cached) i) (\<lambda>word.
       if word = [] then Inr matches
       else if str_in search_lower (lower word) then
         bind_e (token_conf pf cached i [ValueError, TypeError]) (\<lambda>conf.
           if conf \<ge> min_confidence then
             bind_e (idx (left_col cached) i) (\<lambda>l.
             bind_e (idx (top_col cached) i) (\<lambda>t.
             bind_e (idx (width_col cached) i) (\<lambda>w.
             bind_e (idx (height_col cached) i) (\<lambda>h.
               Inr (matches @
                 [\<lparr>bbox = \<lparr>x_bb = l, y_bb = t, width_bb = w, height_bb = h\<rparr>,
                   confidence = conf, text_em = Some word\<rparr>])))))
           else Inr matches)
       else Inr matches)"

definition find_text_in_ocr_cache ::
  "(string \<Rightarrow> real option) \<Rightarrow> vision_state \<Rightarrow> string \<Rightarrow> real \<Rightarrow> real \<Rightarrow> py_error + element_match list" where
  "find_text_in_ocr_cache pf st text_arg min_confidence now =
     (case get_cached_ocr st now of
        None \<Rightarrow> Inr []
      | Some cached \<Rightarrow>
          let search_lower = lower text_arg;
              n_boxes = length (text_col cached)
          in bind_e (for_range (cache_text_body pf cached search_lower min_confidence)
                       [0..<n_boxes] [])
               (\<lambda>matches. Inr (sorted_py confidence True matches)))"

section \<open>Screenshots for the caller\<close>

text \<open>
  Image encoding (\<open>PIL\<close>'s \<open>save\<close>) is a collaborator: \<open>jpeg_bytes\<close> for
  \<open>convert("RGB").save(format="JPEG", quality=quality)\<close> and \<open>png_bytes\<close> for
  \<open>save(format="PNG")\<close>.
\<close>

datatype img_format = Jpeg | Png

record image_encoder =
  jpeg_bytes :: "raw_image \<Rightarrow> int \<Rightarrow> nat list"
  png_bytes :: "raw_image \<Rightarrow> nat list"

definition encode :: "image_encoder \<Rightarrow> raw_image \<Rightarrow> img_format \<Rightarrow> int \<Rightarrow> nat list" where
  "encode enc img fmt quality =
     (if fmt = Jpeg then jpeg_bytes enc img quality else png_bytes enc img)"

definition capture_screenshot ::
  "image_encoder \<Rightarrow> vision_state \<Rightarrow> int \<Rightarrow> img_format \<Rightarrow> region option \<Rightarrow> bool \<Rightarrow>
   real \<Rightarrow> raw_image \<Rightarrow> real \<Rightarrow> (nat list \<times> img_format) \<times> vision_state" where
  "capture_screenshot enc st quality fmt region use_cache now img t_new =
     (let (screenshot, st') =
        (if use_cache \<and> region = None then
           (let (r, st1) = capture st None False now img t_new in (image_cf (objs st1 ! r), st1))
         else if region \<noteq> None then
           (img, st\<lparr>screenshots := screenshots st @ [region]\<rparr>)
         else
           (let (r, st1) = capture st None True now img t_new in (image_cf (objs st1 ! r), st1)))
      in ((encode enc screenshot fmt quality, fmt), st'))"

record metadata =
  image_bytes :: "nat list"
  format_md :: img_format
  width_md :: int
  height_md :: int
  timestamp_md :: real
  mouse_x :: int
  mouse_y :: int

text \<open>\<open>capture_with_metadata\<close>; \<open>mouse\<close> is what \<open>pyautogui.position()\<close> returns.\<close>

definition capture_with_metadata ::
  "image_encoder \<Rightarrow> vision_state \<Rightarrow> int \<Rightarrow> img_format \<Rightarrow> region option \<Rightarrow>
   real \<Rightarrow> raw_image \<Rightarrow> real \<Rightarrow> int \<times> int \<Rightarrow> metadata \<times> vision_state" where
  "capture_with_metadata enc st quality fmt region now img t_new mouse =
     (let (r, st1) = capture st region True now img t_new;
          fr = objs st1 ! r
      in (\<lparr>image_bytes = encode enc (image_cf fr) fmt quality, format_md = fmt,
           width_md = width_cf fr, height_md = height_cf fr, timestamp_md = timestamp fr,
           mouse_x = fst mouse, mouse_y = snd mouse\<rparr>, st1))"

text \<open>
  \<open>get_screen\<close> of \<open>src/servers/server.py\<close>. The \<open>region\<close> argument is a dict with
  integer values (an association list here) or \<open>None\<close>; an empty dict is falsy. A
  missing key raises \<open>KeyError\<close>, which the handler turns into \<open>ValueError\<close>. The
  result is the \<open>Image(data, format)\<close>.
\<close>

definition region_key :: "(string \<times> int) list \<Rightarrow> string \<Rightarrow> py_error + int" where
  "region_key d k = (case map_of d k of Some v \<Rightarrow> Inr v | None \<Rightarrow> Inl KeyError)"

definition region_tuple_of :: "(string \<times> int) list option \<Rightarrow> py_error + region option" where
  "region_tuple_of region =
     (case region of
        None \<Rightarrow> Inr None
      | Some d \<Rightarrow>
          if d = [] then Inr None
          else (case bind_e (region_key d ''x'') (\<lambda>x.
                     bind_e (region_key d ''y'') (\<lambda>y.
                     bind_e (region_key d ''width'') (\<lambda>w.
                     bind_e (region_key d ''height'') (\<lambda>h. Inr (x, y, w, h))))) of
                  Inl e \<Rightarrow> if e \<in> {KeyError, TypeError, ValueError} then Inl ValueError else Inl e
                | Inr t \<Rightarrow> Inr (Some t)))"

definition get_screen ::
  "image_encoder \<Rightarrow> vision_state \<Rightarrow> (string \<times> int) list option \<Rightarrow> int \<Rightarrow>
   real \<Rightarrow> raw_image \<Rightarrow> real \<Rightarrow> int \<times> int \<Rightarrow> (py_error + nat list \<times> img_format) \<times> vision_state" where
  "get_screen enc st region quality now img t_new mouse =
     (case region_tuple_of region of
        Inl e \<Rightarrow> (Inl e, st)
      | Inr region_tuple \<Rightarrow>
          (case region_tuple of
             Some rt \<Rightarrow>
               (let (res, st') = capture_screenshot enc st quality Jpeg (Some rt) False now img t_new
                in (Inr res, st'))
           | None \<Rightarrow>
               (let (meta, st') = capture_with_metadata enc st quality Jpeg None now img t_new mouse
                in (Inr (image_bytes meta, format_md meta), st'))))"

section \<open>Notions used in the statements\<close>

text \<open>
  A table is aligned when its six columns have the same length, as the rows of one
  engine run do.
\<close>

definition aligned :: "ocr_table \<Rightarrow> bool" where
  "aligned data =
     (length (conf_col data) = length (text_col data) \<and>
      length (left_col data) = length (text_col data) \<and>
      length (top_col data) = length (text_col data) \<and>
      length (width_col data) = length (text_col data) \<and>
      length (height_col data) = length (text_col data))"

text \<open>
  A loop body only appends when its result is the accumulator followed by what the
  row contributes; \<open>row_out body i\<close> is the contribution of row \<open>i\<close> (nothing when
  the row raises).
\<close>

definition appends :: "(nat \<Rightarrow> 'a list \<Rightarrow> py_error + 'a list) \<Rightarrow> bool" where
  "appends body = (\<forall>i acc. body i acc = bind_e (body i []) (\<lambda>xs. Inr (acc @ xs)))"

definition row_out :: "(nat \<Rightarrow> 'a list \<Rightarrow> py_error + 'a list) \<Rightarrow> nat \<Rightarrow> 'a list" where
  "row_out body i = (case body i [] of Inr xs \<Rightarrow> xs | Inl e \<Rightarrow> [])"

text \<open>
  The matches of a text query in the order the engine emitted their rows, before the
  sort: row by row, for the screen query and for the query on the cached payload.
\<close>

definition region_offset :: "region option \<Rightarrow> int \<times> int" where
  "region_offset region = (case region of Some (x, y, w, h) \<Rightarrow> (x, y) | None \<Rightarrow> (0, 0))"

definition screen_emission ::
  "(string \<Rightarrow> real option) \<Rightarrow> ocr_table \<Rightarrow> string \<Rightarrow> region option \<Rightarrow> real \<Rightarrow> element_match list" where
  "screen_emission pf data text_arg region min_confidence =
     concat (map (row_out (find_text_body pf data (lower text_arg) min_confidence
                    (fst (region_offset region)) (snd (region_offset region))))
               [0..<length (text_col data)])"

definition cache_emission ::
  "(string \<Rightarrow> real option) \<Rightarrow> ocr_table option \<Rightarrow> string \<Rightarrow> real \<Rightarrow> element_match list" where
  "cache_emission pf cached text_arg min_confidence =
     (case cached of
        None \<Rightarrow> []
      | Some data \<Rightarrow>
          concat (map (row_out (cache_text_body pf data (lower text_arg) min_confidence))
                    [0..<length (text_col data)]))"

text \<open>
  The row-wise reading of the conversion, to compare \<open>ocr_data_to_matches\<close> with: a
  token is blank when every character of its text is whitespace (the empty text
  included), its confidence is the score over 100, or 0 when \<open>float\<close> raises, and the
  row is kept when the text is not blank and the confidence is not below the floor.
\<close>

definition blank :: "string \<Rightarrow> bool" where
  "blank w = list_all isspace w"

definition conf_or_zero :: "(string \<Rightarrow> real option) \<Rightarrow> conf_value \<Rightarrow> real" where
  "conf_or_zero pf c = (case py_float pf c of Inr v \<Rightarrow> v / 100 | Inl e \<Rightarrow> 0)"

definition scan_row_spec ::
  "(string \<Rightarrow> real option) \<Rightarrow> ocr_table \<Rightarrow> real \<Rightarrow> nat \<Rightarrow> match_dict list" where
  "scan_row_spec pf data min_confidence i =
     (let word = text_col data ! i;
          conf = conf_or_zero pf (conf_col data ! i);
          x = left_col data ! i; y = top_col data ! i;
          w = width_col data ! i; h = height_col data ! i
      in if blank word \<or> conf < min_confidence then []
         else [\<lparr>text_d = word, confidence_d = conf,
                bbox_d = \<lparr>x_d = x, y_d = y, width_d = w, height_d = h,
                           center_x_d = x + w div 2, center_y_d = y + h div 2\<rparr>\<rparr>])"

text \<open>
  The row-wise reading of the two text queries, to compare their loops with: row \<open>i\<close>
  gives a match when its text is not empty, contains the query (both in lower case)
  and its own confidence is at least the floor; the match carries the row's own
  text, its own confidence and its own box, moved by the offset of the region.
\<close>

definition text_row_spec ::
  "(string \<Rightarrow> real option) \<Rightarrow> ocr_table \<Rightarrow> string \<Rightarrow> real \<Rightarrow> int \<Rightarrow> int \<Rightarrow> nat \<Rightarrow>
   element_match list" where
  "text_row_spec pf data text_arg min_confidence offset_x offset_y i =
     (let word = text_col data ! i;
          conf = conf_or_zero pf (conf_col data ! i)
      in if word \<noteq> [] \<and> str_in (lower text_arg) (lower word) \<and> min_confidence \<le> conf
         then [\<lparr>bbox = \<lparr>x_bb = offset_x + left_col data ! i, y_bb = offset_y + top_col data ! i,
                          width_bb = width_col data ! i, height_bb = height_col data ! i\<rparr>,
                 confidence = conf, text_em = Some word\<rparr>]
         else [])"

text \<open>
  The calls that are neither \<open>invalidate\<close> nor a forced capture, made no later than
  the clock reading \<open>t\<close>: a capture of a region (which never touches the slot), an
  unforced full-screen capture whose clock reading is at most \<open>t\<close>, an attachment
  of a payload, a direct screenshot.
\<close>

fun keeps_frame :: "real \<Rightarrow> cache_call \<Rightarrow> bool" where
  "keeps_frame t (Capture_call region force now img t_new) =
     (case region of Some rg \<Rightarrow> True | None \<Rightarrow> (if force then False else now \<le> t))"
| "keeps_frame t Invalidate_call = False"
| "keeps_frame t (Cache_ocr_data_call data) = True"
| "keeps_frame t (Screenshot_call region) = True"

section \<open>Example inputs\<close>

definition img_a :: raw_image where
  "img_a = \<lparr>pixels = 1, img_size = (1920, 1080)\<rparr>"

definition img_b :: raw_image where
  "img_b = \<lparr>pixels = 2, img_size = (1920, 1080)\<rparr>"

definition table_a :: ocr_table where
  "table_a = \<lparr>text_col = [''Submit'', ''sub''], conf_col = [ConfNum 92, ConfNum 20],
     left_col = [10, 200], top_col = [10, 200], width_col = [50, 30], height_col = [20, 15]\<rparr>"

definition table_neg :: ocr_table where
  "table_neg = \<lparr>text_col = [''OK''], conf_col = [ConfNum (- 1)],
     left_col = [5], top_col = [6], width_col = [20], height_col = [10]\<rparr>"

definition table_mixed :: ocr_table where
  "table_mixed = \<lparr>text_col = [''go'', ''   '', ''Go'', ''gopher'', ''ago''],
     conf_col = [ConfStr ''??'', ConfNum 95, ConfNum 80, ConfNum 80, ConfNone],
     left_col = [1, 2, 3, 4, 5], top_col = [11, 12, 13, 14, 15],
     width_col = [20, 20, 20, 60, 30], height_col = [9, 9, 9, 9, 9]\<rparr>"

definition pf_demo :: "string \<Rightarrow> real option" where
  "pf_demo s = (if s = ''95.5'' then Some 95.5 else None)"

text \<open>A cache holding one full-screen frame, captured at time \<open>t\<close>, with payload \<open>data\<close>.\<close>

definition stored :: "raw_image \<Rightarrow> real \<Rightarrow> ocr_table option \<Rightarrow> vision_state" where
  "stored img t data =
     \<lparr>objs = [(new_frame None img t)\<lparr>ocr_data := data\<rparr>], frame = Some 0,
      screenshots = [None]\<rparr>"

definition tess_ok :: tesseract_env where
  "tess_ok = \<lparr>importable = True, resolved_cmd = Some ''/usr/bin/tesseract''\<rparr>"

definition ocr_demo :: "raw_image \<Rightarrow> string \<Rightarrow> int option \<Rightarrow> ocr_table" where
  "ocr_demo img lang psm = (if pixels img = 1 then table_a else table_neg)"

definition enc_demo :: image_encoder where
  "enc_demo = \<lparr>jpeg_bytes = (\<lambda>img q. [pixels img, nat q]), png_bytes = (\<lambda>img. [pixels img])\<rparr>"

definition locate_demo :: "string \<Rightarrow> real \<Rightarrow> bool \<Rightarrow> locate_run" where
  "locate_demo path c g =
     \<lparr>yielded = [\<lparr>left_bx = 5, top_bx = 6, width_bx = 7, height_bx = 8\<rparr>,
                 \<lparr>left_bx = 50, top_bx = 60, width_bx = 7, height_bx = 8\<rparr>],
      not_found = False\<rparr>"

text \<open>
  Between two captures: a forced capture of a region, the attachment of a payload, a
  direct screenshot and an unforced full-screen capture.
\<close>

definition calls_between :: "cache_call list" where
  "calls_between =
     [Capture_call (Some (10, 20, 300, 200)) True 100.1 img_b 100.2,
      Cache_ocr_data_call table_a,
      Screenshot_call None,
      Capture_call None False 100.3 img_b 100.35]"

section \<open>Exceptions and loops\<close>

lemma bind_e_Inr [simp]: "bind_e (Inr v) f = f v"
  by (simp add: bind_e_def)

lemma bind_e_Inl [simp]: "bind_e (Inl e) f = Inl e"
  by (simp add: bind_e_def)

lemma bind_e_eq_Inr: "bind_e m f = Inr y \<longleftrightarrow> (\<exists>v. m = Inr v \<and> f v = Inr y)"
  by (cases m) simp_all

lemma for_range_concat:
  assumes "appends body" and "for_range body js acc = Inr out"
  shows "out = acc @ concat (map (row_out body) js)"
  using assms(2)
proof (induction js arbitrary: acc)
  case Nil
  then show ?case by simp
next
  case (Cons i js)
  show ?case
  proof (cases "body i acc")
    case (Inl e)
    with Cons.prems show ?thesis by simp
  next
    case (Inr acc')
    with Cons.prems have r: "for_range body js acc' = Inr out" by simp
    from assms(1) have "body i acc = bind_e (body i []) (\<lambda>xs. Inr (acc @ xs))"
      unfolding appends_def by blast
    with Inr obtain xs where xs: "body i [] = Inr xs" and acc': "acc' = acc @ xs"
      by (auto simp: bind_e_eq_Inr)
    from Cons.IH [OF r] show ?thesis
      by (simp add: acc' row_out_def xs)
  qed
qed

lemma for_range_total:
  assumes "\<forall>i\<in>set js. \<forall>acc. \<exists>acc'. body i acc = Inr acc'"
  shows "\<exists>out. for_range body js acc = Inr out"
  using assms
proof (induction js arbitrary: acc)
  case Nil
  then show ?case by simp
next
  case (Cons i js)
  then obtain acc' where "body i acc = Inr acc'" by fastforce
  with Cons show ?case by simp
qed

lemma for_range_rows:
  assumes "\<forall>i\<in>set js. \<forall>acc. body i acc = Inr (acc @ g i)"
  shows "for_range body js acc = Inr (acc @ concat (map g js))"
  using assms
  by (induction js arbitrary: acc) simp_all

section \<open>Python's sort\<close>



lemma sorted_py_set: "set (sorted_py key r xs) = set xs"
  by (simp add: sorted_py_def)

section \<open>Blank text and token confidence\<close>

lemma strip_empty_iff: "strip w = [] \<longleftrightarrow> list_all isspace w"
proof
  assume "strip w = []"
  then have a: "\<forall>c\<in>set (dropWhile isspace w). isspace c"
    by (simp add: strip_def dropWhile_eq_Nil_conv)
  have "dropWhile isspace w = []"
  proof (rule ccontr)
    assume n: "dropWhile isspace w \<noteq> []"
    then have "\<not> isspace (hd (dropWhile isspace w))" by (rule hd_dropWhile)
    moreover from n have "hd (dropWhile isspace w) \<in> set (dropWhile isspace w)" by simp
    ultimately show False using a by blast
  qed
  then show "list_all isspace w"
    by (simp add: dropWhile_eq_Nil_conv list_all_iff)
next
  assume "list_all isspace w"
  then show "strip w = []"
    by (auto simp: strip_def list_all_iff dest: set_dropWhileD)
qed

lemma blank_iff: "blank w \<longleftrightarrow> (w = [] \<or> strip w = [])"
  by (auto simp: blank_def strip_empty_iff)

lemma token_conf_both:
  "i < length (conf_col data) \<Longrightarrow>
   token_conf pf data i [ValueError, TypeError] = Inr (conf_or_zero pf (conf_col data ! i))"
  by (cases "conf_col data ! i")
     (auto simp: token_conf_def try_except_def idx_def py_float_def conf_or_zero_def
           split: option.splits)

lemma token_conf_value_error:
  "i < length (conf_col data) \<Longrightarrow> conf_col data ! i \<noteq> ConfNone \<Longrightarrow>
   token_conf pf data i [ValueError] = Inr (conf_or_zero pf (conf_col data ! i))"
  by (cases "conf_col data ! i")
     (auto simp: token_conf_def try_except_def idx_def py_float_def conf_or_zero_def
           split: option.splits)

lemma token_conf_num:
  "i < length (conf_col data) \<Longrightarrow> conf_col data ! i = ConfNum c \<Longrightarrow>
   token_conf pf data i caught = Inr (c / 100)"
  by (simp add: token_conf_def try_except_def idx_def py_float_def)

lemma token_conf_bad_string:
  "i < length (conf_col data) \<Longrightarrow> conf_col data ! i = ConfStr s \<Longrightarrow> pf s = None \<Longrightarrow>
   ValueError \<in> set caught \<Longrightarrow> token_conf pf data i caught = Inr 0"
  by (simp add: token_conf_def try_except_def idx_def py_float_def)

section \<open>The three loops\<close>

lemma find_text_body_appends: "appends (find_text_body pf data sl mc ox oy)"
  unfolding appends_def find_text_body_def
  by (auto simp: bind_e_def split: sum.splits)

lemma cache_text_body_appends: "appends (cache_text_body pf data sl mc)"
  unfolding appends_def cache_text_body_def
  by (auto simp: bind_e_def split: sum.splits)

lemma ocr_data_body_appends: "appends (ocr_data_body pf data mc)"
  unfolding appends_def ocr_data_body_def
  by (auto simp: bind_e_def split: sum.splits)

lemma find_text_body_out:
  assumes "m \<in> set (row_out (find_text_body pf data sl mc ox oy) i)"
  shows "confidence m \<ge> mc \<and> token_conf pf data i [ValueError] = Inr (confidence m)
         \<and> i < length (text_col data) \<and> text_em m = Some (text_col data ! i)
         \<and> bbox m = \<lparr>x_bb = ox + left_col data ! i, y_bb = oy + top_col data ! i,
                       width_bb = width_col data ! i, height_bb = height_col data ! i\<rparr>"
  using assms
  by (auto simp: row_out_def find_text_body_def bind_e_def idx_def split: sum.splits if_splits)

lemma cache_text_body_out:
  assumes "m \<in> set (row_out (cache_text_body pf data sl mc) i)"
  shows "confidence m \<ge> mc \<and> token_conf pf data i [ValueError, TypeError] = Inr (confidence m)
         \<and> i < length (text_col data) \<and> text_em m = Some (text_col data ! i)
         \<and> bbox m = \<lparr>x_bb = left_col data ! i, y_bb = top_col data ! i,
                       width_bb = width_col data ! i, height_bb = height_col data ! i\<rparr>"
  using assms
  by (auto simp: row_out_def cache_text_body_def bind_e_def idx_def split: sum.splits if_splits)

lemma ocr_data_body_out:
  assumes "m \<in> set (row_out (ocr_data_body pf data mc) i)"
  shows "confidence_d m \<ge> mc \<and> token_conf pf data i [ValueError, TypeError] = Inr (confidence_d m)
         \<and> i < length (text_col data) \<and> text_d m = text_col data ! i \<and> \<not> blank (text_d m)
         \<and> bbox_d m = \<lparr>x_d = left_col data ! i, y_d = top_col data ! i,
                         width_d = width_col data ! i, height_d = height_col data ! i,
                         center_x_d = left_col data ! i + width_col data ! i div 2,
                         center_y_d = top_col data ! i + height_col data ! i div 2\<rparr>"
  using assms
  by (auto simp: row_out_def ocr_data_body_def bind_e_def idx_def blank_iff
           split: sum.splits if_splits)

lemma find_text_body_total:
  assumes "aligned data" and "i < length (text_col data)" and "conf_col data ! i \<noteq> ConfNone"
  shows "\<exists>acc'. find_text_body pf data sl mc ox oy i acc = Inr acc'"
proof -
  from assms(1,2) have l: "i < length (conf_col data)" "i < length (left_col data)"
    "i < length (top_col data)" "i < length (width_col data)" "i < length (height_col data)"
    by (simp_all add: aligned_def)
  show ?thesis
    using assms(2,3) l
    by (simp add: find_text_body_def token_conf_value_error idx_def)
qed

lemma cache_text_body_total:
  assumes "aligned data" and "i < length (text_col data)"
  shows "\<exists>acc'. cache_text_body pf data sl mc i acc = Inr acc'"
proof -
  from assms have l: "i < length (conf_col data)" "i < length (left_col data)"
    "i < length (top_col data)" "i < length (width_col data)" "i < length (height_col data)"
    by (simp_all add: aligned_def)
  show ?thesis
    using assms(2) l
    by (simp add: cache_text_body_def token_conf_both idx_def)
qed

lemma ocr_data_body_row:
  assumes "aligned data" and "i < length (text_col data)"
  shows "ocr_data_body pf data mc i acc = Inr (acc @ scan_row_spec pf data mc i)"
proof -
  from assms have l: "i < length (conf_col data)" "i < length (left_col data)"
    "i < length (top_col data)" "i < length (width_col data)" "i < length (height_col data)"
    by (simp_all add: aligned_def)
  show ?thesis
    using assms(2) l
    by (simp add: ocr_data_body_def scan_row_spec_def token_conf_both idx_def blank_iff Let_def)
qed

lemma ocr_data_to_matches_rows:
  assumes "aligned data"
  shows "ocr_data_to_matches pf data mc =
           Inr (concat (map (scan_row_spec pf data mc) [0..<length (text_col data)]))"
proof -
  have "\<forall>i\<in>set [0..<length (text_col data)]. \<forall>acc.
          ocr_data_body pf data mc i acc = Inr (acc @ scan_row_spec pf data mc i)"
    using assms by (simp add: ocr_data_body_row)
  then have "for_range (ocr_data_body pf data mc) [0..<length (text_col data)] [] =
          Inr ([] @ concat (map (scan_row_spec pf data mc) [0..<length (text_col data)]))"
    by (rule for_range_rows)
  then show ?thesis
    by (simp add: ocr_data_to_matches_def)
qed

lemma ocr_data_to_matches_result:
  assumes "ocr_data_to_matches pf data mc = Inr rs"
  shows "rs = concat (map (row_out (ocr_data_body pf data mc)) [0..<length (text_col data)])"
  using for_range_concat [OF ocr_data_body_appends, of pf data mc "[0..<length (text_col data)]" "[]" rs] assms
  by (simp add: ocr_data_to_matches_def)

lemma find_text_on_screen_result:
  assumes "fst (find_text_on_screen pf tess ocr st text_arg lang region mc img) = Inr ms"
  shows "ms = sorted_py confidence True (screen_emission pf (ocr img lang None) text_arg region mc)"
proof -
  let ?data = "ocr img lang None"
  let ?body = "find_text_body pf ?data (lower text_arg) mc
                 (fst (region_offset region)) (snd (region_offset region))"
  from assms obtain emitted where
    e: "for_range ?body [0..<length (text_col ?data)] [] = Inr emitted"
    and ms: "ms = sorted_py confidence True emitted"
    by (auto simp: find_text_on_screen_def Let_def region_offset_def bind_e_eq_Inr
             split: sum.splits prod.splits option.splits)
  from for_range_concat [OF find_text_body_appends e]
  show ?thesis by (simp add: ms screen_emission_def)
qed

lemma find_text_in_ocr_cache_result:
  assumes "find_text_in_ocr_cache pf st text_arg mc now = Inr ms"
  shows "ms = sorted_py confidence True (cache_emission pf (get_cached_ocr st now) text_arg mc)"
proof (cases "get_cached_ocr st now")
  case None
  with assms show ?thesis
    by (simp add: find_text_in_ocr_cache_def cache_emission_def sorted_py_def)
next
  case (Some data)
  let ?body = "cache_text_body pf data (lower text_arg) mc"
  from assms Some obtain emitted where
    e: "for_range ?body [0..<length (text_col data)] [] = Inr emitted"
    and ms: "ms = sorted_py confidence True emitted"
    by (auto simp: find_text_in_ocr_cache_def Let_def bind_e_eq_Inr)
  from for_range_concat [OF cache_text_body_appends e]
  show ?thesis by (simp add: ms cache_emission_def Some)
qed

lemma find_text_on_screen_total:
  assumes "configure_tesseract tess = Inr cmd" and "aligned (ocr img lang None)"
    and "ConfNone \<notin> set (conf_col (ocr img lang None))"
  shows "\<exists>ms. fst (find_text_on_screen pf tess ocr st text_arg lang region mc img) = Inr ms"
proof -
  let ?data = "ocr img lang None"
  let ?body = "find_text_body pf ?data (lower text_arg) mc
                 (fst (region_offset region)) (snd (region_offset region))"
  have "\<forall>i\<in>set [0..<length (text_col ?data)]. \<forall>acc. \<exists>acc'. ?body i acc = Inr acc'"
  proof (intro ballI allI)
    fix i acc
    assume "i \<in> set [0..<length (text_col ?data)]"
    then have i: "i < length (text_col ?data)" by simp
    with assms(2) have "i < length (conf_col ?data)" by (simp add: aligned_def)
    with assms(3) have "conf_col ?data ! i \<noteq> ConfNone" by (metis nth_mem)
    with assms(2) i show "\<exists>acc'. ?body i acc = Inr acc'"
      by (rule find_text_body_total)
  qed
  then obtain out where "for_range ?body [0..<length (text_col ?data)] [] = Inr out"
    using for_range_total by blast
  with assms(1) show ?thesis
    by (simp add: find_text_on_screen_def Let_def region_offset_def split: prod.splits option.splits)
qed

lemma find_text_in_ocr_cache_total:
  assumes "\<forall>cached. get_cached_ocr st now = Some cached \<longrightarrow> aligned cached"
  shows "\<exists>ms. find_text_in_ocr_cache pf st text_arg mc now = Inr ms"
proof (cases "get_cached_ocr st now")
  case None
  then show ?thesis by (simp add: find_text_in_ocr_cache_def)
next
  case (Some data)
  with assms have a: "aligned data" by simp
  let ?body = "cache_text_body pf data (lower text_arg) mc"
  have "\<forall>i\<in>set [0..<length (text_col data)]. \<forall>acc. \<exists>acc'. ?body i acc = Inr acc'"
    using a by (simp add: cache_text_body_total)
  then obtain out where "for_range ?body [0..<length (text_col data)] [] = Inr out"
    using for_range_total by blast
  with Some show ?thesis
    by (simp add: find_text_in_ocr_cache_def Let_def)
qed

lemma find_text_body_row:
  assumes "aligned data" and "i < length (text_col data)" and "conf_col data ! i \<noteq> ConfNone"
  shows "find_text_body pf data (lower text_arg) mc ox oy i acc
           = Inr (acc @ text_row_spec pf data text_arg mc ox oy i)"
proof -
  from assms(1,2) have l: "i < length (conf_col data)" "i < length (left_col data)"
    "i < length (top_col data)" "i < length (width_col data)" "i < length (height_col data)"
    by (simp_all add: aligned_def)
  show ?thesis
    using assms(2,3) l
    by (simp add: find_text_body_def text_row_spec_def token_conf_value_error idx_def Let_def)
qed

lemma cache_text_body_row:
  assumes "aligned data" and "i < length (text_col data)"
  shows "cache_text_body pf data (lower text_arg) mc i acc
           = Inr (acc @ text_row_spec pf data text_arg mc 0 0 i)"
proof -
  from assms have l: "i < length (conf_col data)" "i < length (left_col data)"
    "i < length (top_col data)" "i < length (width_col data)" "i < length (height_col data)"
    by (simp_all add: aligned_def)
  show ?thesis
    using assms(2) l
    by (simp add: cache_text_body_def text_row_spec_def token_conf_both idx_def Let_def)
qed

lemma find_text_on_screen_rows:
  assumes "configure_tesseract tess = Inr cmd" and "aligned (ocr img lang None)"
    and "ConfNone \<notin> set (conf_col (ocr img lang None))"
  shows "fst (find_text_on_screen pf tess ocr st text_arg lang region mc img)
           = Inr (sorted_py confidence True
                    (concat (map (text_row_spec pf (ocr img lang None) text_arg mc
                                    (fst (region_offset region)) (snd (region_offset region)))
                               [0..<length (text_col (ocr img lang None))])))"
proof -
  let ?data = "ocr img lang None"
  let ?ox = "fst (region_offset region)" and ?oy = "snd (region_offset region)"
  let ?body = "find_text_body pf ?data (lower text_arg) mc ?ox ?oy"
  have "\<forall>i\<in>set [0..<length (text_col ?data)]. \<forall>acc.
          ?body i acc = Inr (acc @ text_row_spec pf ?data text_arg mc ?ox ?oy i)"
  proof (intro ballI allI)
    fix i acc
    assume "i \<in> set [0..<length (text_col ?data)]"
    then have i: "i < length (text_col ?data)" by simp
    with assms(2) have "i < length (conf_col ?data)" by (simp add: aligned_def)
    with assms(3) have "conf_col ?data ! i \<noteq> ConfNone" by (metis nth_mem)
    with assms(2) i show "?body i acc = Inr (acc @ text_row_spec pf ?data text_arg mc ?ox ?oy i)"
      by (rule find_text_body_row)
  qed
  then have "for_range ?body [0..<length (text_col ?data)] []
               = Inr ([] @ concat (map (text_row_spec pf ?data text_arg mc ?ox ?oy)
                                     [0..<length (text_col ?data)]))"
    by (rule for_range_rows)
  with assms(1) show ?thesis
    by (simp add: find_text_on_screen_def Let_def region_offset_def
             split: prod.splits option.splits)
qed

lemma find_text_in_ocr_cache_rows:
  assumes "get_cached_ocr st now = Some cached" and "aligned cached"
  shows "find_text_in_ocr_cache pf st text_arg mc now
           = Inr (sorted_py confidence True
                    (concat (map (text_row_spec pf cached text_arg mc 0 0)
                               [0..<length (text_col cached)])))"
proof -
  let ?body = "cache_text_body pf cached (lower text_arg) mc"
  have "\<forall>i\<in>set [0..<length (text_col cached)]. \<forall>acc.
          ?body i acc = Inr (acc @ text_row_spec pf cached text_arg mc 0 0 i)"
    using assms(2) by (simp add: cache_text_body_row)
  then have "for_range ?body [0..<length (text_col cached)] []
               = Inr ([] @ concat (map (text_row_spec pf cached text_arg mc 0 0)
                                     [0..<length (text_col cached)]))"
    by (rule for_range_rows)
  with assms(1) show ?thesis
    by (simp add: find_text_in_ocr_cache_def Let_def)
qed

lemma find_text_in_ocr_cache_empty:
  "get_cached_ocr st now = None \<Longrightarrow> find_text_in_ocr_cache pf st text_arg mc now = Inr []"
  by (simp add: find_text_in_ocr_cache_def)

section \<open>The store stays well formed\<close>

lemma wf_init_state: "wf_state init_state"
  by (simp add: wf_state_def init_state_def)

lemma wf_capture:
  "wf_state st \<Longrightarrow> wf_state (snd (capture st region force now img t_new))"
  by (auto simp: wf_state_def capture_def fresh_capture_def Let_def split: option.splits)

lemma wf_invalidate: "wf_state (invalidate st)"
  by (simp add: wf_state_def invalidate_def)

lemma wf_cache_ocr_data: "wf_state st \<Longrightarrow> wf_state (cache_ocr_data st data)"
  by (auto simp: wf_state_def cache_ocr_data_def split: option.splits)

lemma capture_forced:
  "capture st region True now img t_new = fresh_capture st region img t_new"
  by (simp add: capture_def split: option.splits)

lemma image_cf_new_frame: "image_cf (new_frame region img t_new) = img"
  by (simp add: new_frame_def split: option.splits prod.splits)

lemma wf_do_call:
  assumes "wf_state st"
  shows "wf_state (do_call st c)"
proof (cases c)
  case (Capture_call region force now img t_new)
  with assms show ?thesis by (simp add: wf_capture)
next
  case Invalidate_call
  then show ?thesis by (simp add: wf_invalidate)
next
  case (Cache_ocr_data_call data)
  with assms show ?thesis by (simp add: wf_cache_ocr_data)
next
  case (Screenshot_call region)
  with assms show ?thesis by (simp add: wf_state_def split: option.splits)
qed

lemma wf_run_calls: "wf_state st \<Longrightarrow> wf_state (run_calls st calls)"
  unfolding run_calls_def
  by (induction calls arbitrary: st) (simp_all add: wf_do_call)

lemma age_ms_mono: "now \<le> t \<Longrightarrow> age_ms now f \<le> age_ms t f"
  by (simp add: age_ms_def)

lemma keeps_frame_step:
  assumes "frame st = Some r" and "r < length (objs st)"
    and "age_ms t (objs st ! r) \<le> 500" and "keeps_frame t c"
  shows "frame (do_call st c) = Some r \<and> r < length (objs (do_call st c))
         \<and> timestamp (objs (do_call st c) ! r) = timestamp (objs st ! r)
         \<and> image_cf (objs (do_call st c) ! r) = image_cf (objs st ! r)"
proof (cases c)
  case (Capture_call region force now img t_new)
  show ?thesis
  proof (cases region)
    case (Some rg)
    with assms(1,2) Capture_call show ?thesis
      by (simp add: capture_def fresh_capture_def Let_def nth_append)
  next
    case None
    with assms(4) Capture_call have nf: "\<not> force" and le: "now \<le> t"
      by (simp_all split: if_splits)
    from le assms(3) have "age_ms now (objs st ! r) \<le> 500"
      using age_ms_mono [of now t "objs st ! r"] by simp
    with assms(1,2) nf None Capture_call show ?thesis
      by (simp add: capture_def is_stale_def)
  qed
next
  case Invalidate_call
  with assms(4) show ?thesis by simp
next
  case (Cache_ocr_data_call data)
  with assms(1,2) show ?thesis
    by (simp add: cache_ocr_data_def)
next
  case (Screenshot_call region)
  with assms(1,2) show ?thesis by simp
qed

lemma keeps_frame_run:
  assumes "list_all (keeps_frame t) calls" and "frame st = Some r" and "r < length (objs st)"
    and "age_ms t (objs st ! r) \<le> 500"
  shows "frame (run_calls st calls) = Some r \<and> r < length (objs (run_calls st calls))
         \<and> timestamp (objs (run_calls st calls) ! r) = timestamp (objs st ! r)
         \<and> image_cf (objs (run_calls st calls) ! r) = image_cf (objs st ! r)"
  using assms
proof (induction calls arbitrary: st)
  case Nil
  then show ?case by (simp add: run_calls_def)
next
  case (Cons c calls)
  from Cons.prems have k: "keeps_frame t c" and ks: "list_all (keeps_frame t) calls"
    by simp_all
  note s = keeps_frame_step [OF Cons.prems(2) Cons.prems(3) Cons.prems(4) k]
  from s Cons.prems(4) have a: "age_ms t (objs (do_call st c) ! r) \<le> 500"
    by (simp add: age_ms_def)
  from s have f: "frame (do_call st c) = Some r" and l: "r < length (objs (do_call st c))"
    by simp_all
  from Cons.IH [OF ks f l a] s show ?case
    by (simp add: run_calls_def)
qed

lemma capture_stores_result:
  assumes "wf_state st" and "capture st None False t0 img0 t0' = (r1, st1)"
  shows "frame st1 = Some r1 \<and> r1 < length (objs st1)"
  using assms
  by (auto simp: capture_def fresh_capture_def wf_state_def Let_def
           split: option.splits if_splits)

section \<open>Staleness of the cached frame\<close>

text \<open>
  C1, as stated, fails at the boundary: \<open>is_stale\<close> compares with \<open>>\<close>, so a frame whose
  age is exactly the threshold of 500 ms is still fresh. Here the stored frame was
  captured at time 100 and the clock reads 100.5: its age is 500 ms, and
  \<open>get_cached\<close>, \<open>get_cached_ocr\<close> and the reuse branch of \<open>capture\<close> all return it.
\<close>

theorem boundary_frame_is_returned:
  "age_ms 100.5 (objs (stored img_a 100 (Some table_a)) ! 0) = 500
   \<and> get_cached (stored img_a 100 (Some table_a)) 500 100.5 = Some 0
   \<and> get_cached_ocr (stored img_a 100 (Some table_a)) 100.5 = Some table_a
   \<and> capture (stored img_a 100 (Some table_a)) None False 100.5 img_b 100.6
       = (0, stored img_a 100 (Some table_a))"
  by code_simp

text \<open>
  C1, amended: the stored frame is returned exactly while its age is at most the
  threshold (an age equal to the threshold is fresh), and a frame older than the
  threshold is never returned. \<open>get_cached\<close> returns the stored frame if and only if
  its age is at most \<open>max_age_ms\<close>; \<open>get_cached_ocr\<close> returns a payload if and only if
  it is the payload of the stored frame and that frame's age is at most 500 ms;
  \<open>capture\<close> with no region and \<open>force\<close> unset returns the stored frame with the state
  unchanged if its age is at most 500 ms, and captures afresh otherwise.
\<close>

theorem stale_frame_never_returned:
  "(get_cached st m now = Some r \<longleftrightarrow> frame st = Some r \<and> age_ms now (objs st ! r) \<le> m)
   \<and> (get_cached_ocr st now = Some d \<longleftrightarrow>
        (\<exists>r. frame st = Some r \<and> age_ms now (objs st ! r) \<le> 500
             \<and> ocr_data (objs st ! r) = Some d))
   \<and> (capture st None False now img t_new =
        (case frame st of
           Some r \<Rightarrow> if age_ms now (objs st ! r) \<le> 500 then (r, st)
                     else fresh_capture st None img t_new
         | None \<Rightarrow> fresh_capture st None img t_new))"
  by (auto simp add: get_cached_def get_cached_ocr_def capture_def is_stale_def
           split: option.splits)

theorem stale_frame_never_returned_witness:
  "age_ms 100.5 (objs (stored img_a 100 (Some table_a)) ! 0) \<le> 500
   \<and> get_cached (stored img_a 100 (Some table_a)) 500 100.5 = Some 0
   \<and> \<not> age_ms 100.501 (objs (stored img_a 100 (Some table_a)) ! 0) \<le> 500
   \<and> get_cached (stored img_a 100 (Some table_a)) 500 100.501 \<noteq> Some 0
   \<and> get_cached_ocr (stored img_a 100 (Some table_a)) 100.501 \<noteq> Some table_a
   \<and> capture (stored img_a 100 (Some table_a)) None False 100.501 img_b 100.6
       = fresh_capture (stored img_a 100 (Some table_a)) None img_b 100.6"
proof -
  let ?st = "stored img_a 100 (Some table_a)"
  have f: "frame ?st = Some 0" by code_simp
  have a: "age_ms 100.5 (objs ?st ! 0) \<le> 500" by code_simp
  have b: "\<not> age_ms 100.501 (objs ?st ! 0) \<le> 500" by code_simp
  from stale_frame_never_returned [of ?st 500 "100.5" 0] f a
  have 1: "get_cached ?st 500 100.5 = Some 0" by simp
  from stale_frame_never_returned [of ?st 500 "100.501" 0] b
  have 2: "get_cached ?st 500 100.501 \<noteq> Some 0" by simp
  from stale_frame_never_returned [of ?st _ "100.501" _ table_a] f b
  have 3: "get_cached_ocr ?st 100.501 \<noteq> Some table_a" by simp
  from stale_frame_never_returned [of ?st _ "100.501" _ _ img_b "100.6"] f b
  have 4: "capture ?st None False 100.501 img_b 100.6 = fresh_capture ?st None img_b 100.6"
    by simp
  from a b 1 2 3 4 show ?thesis by blast
qed

section \<open>Reuse of the cached frame\<close>

text \<open>
  C3: two calls of \<open>capture\<close> with no region and \<open>force\<close> unset, on a well-formed
  store (the slot refers to an existing object, as in every state the methods
  produce). Between them any calls may be made that are neither \<open>invalidate\<close> nor a
  forced capture and that read the clock no later than the second call does:
  captures of a region, attachments of a payload, direct screenshots, further
  unforced captures. If, at the second call, the age of the frame the first call
  stored or found is within the threshold, the second call returns the reference
  the first returned: it is still the stored frame, the same object with the same
  timestamp and image. The second call leaves the state as it finds it, so it
  takes no screenshot.
\<close>

theorem capture_twice_reuses_frame:
  assumes "wf_state st"
      and "capture st None False t0 img0 t0' = (r1, st1)"
      and "list_all (keeps_frame t1) calls"
      and "age_ms t1 (objs st1 ! r1) \<le> 500"
  shows "capture (run_calls st1 calls) None False t1 img1 t1' = (r1, run_calls st1 calls)
         \<and> frame st1 = Some r1
         \<and> frame (run_calls st1 calls) = Some r1
         \<and> timestamp (objs (run_calls st1 calls) ! r1) = timestamp (objs st1 ! r1)
         \<and> image_cf (objs (run_calls st1 calls) ! r1) = image_cf (objs st1 ! r1)
         \<and> timestamp (objs (snd (capture (run_calls st1 calls) None False t1 img1 t1'))
                        ! fst (capture (run_calls st1 calls) None False t1 img1 t1'))
             = timestamp (objs st1 ! r1)
         \<and> screenshots (snd (capture (run_calls st1 calls) None False t1 img1 t1'))
             = screenshots (run_calls st1 calls)"
proof -
  let ?st2 = "run_calls st1 calls"
  from capture_stores_result [OF assms(1,2)]
  have f: "frame st1 = Some r1" and l: "r1 < length (objs st1)"
    by simp_all
  note k = keeps_frame_run [OF assms(3) f l assms(4)]
  from k assms(4) have a: "age_ms t1 (objs ?st2 ! r1) \<le> 500"
    by (simp add: age_ms_def)
  from k have f2: "frame ?st2 = Some r1" by simp
  with a have c: "capture ?st2 None False t1 img1 t1' = (r1, ?st2)"
    by (simp add: capture_def is_stale_def)
  from c f k show ?thesis by simp
qed

theorem capture_twice_reuses_frame_witness:
  "wf_state init_state
   \<and> capture init_state None False 0 img_a 100 = (0, stored img_a 100 None)
   \<and> list_all (keeps_frame 100.4) calls_between
   \<and> age_ms 100.4 (objs (stored img_a 100 None) ! 0) \<le> 500
   \<and> run_calls (stored img_a 100 None) calls_between
       = \<lparr>objs = [(new_frame None img_a 100)\<lparr>ocr_data := Some table_a\<rparr>,
                  new_frame (Some (10, 20, 300, 200)) img_b 100.2],
          frame = Some 0,
          screenshots = [None, Some (10, 20, 300, 200), None]\<rparr>
   \<and> run_calls (stored img_a 100 None) calls_between \<noteq> stored img_a 100 None
   \<and> capture (run_calls (stored img_a 100 None) calls_between) None False 100.4 img_b 100.45
       = (0, run_calls (stored img_a 100 None) calls_between)
   \<and> timestamp (objs (run_calls (stored img_a 100 None) calls_between) ! 0) = 100
   \<and> capture (stored img_a 100 None) None False 100.4 img_b 100.45 = (0, stored img_a 100 None)"
proof -
  let ?st1 = "stored img_a 100 None"
  have h0: "wf_state init_state" by code_simp
  have h1: "capture init_state None False 0 img_a 100 = (0, ?st1)"
    by code_simp
  have h2: "list_all (keeps_frame 100.4) calls_between" by code_simp
  have h2e: "list_all (keeps_frame 100.4) []" by simp
  have h3: "age_ms 100.4 (objs ?st1 ! 0) \<le> 500"
    by code_simp
  have v: "run_calls ?st1 calls_between
       = \<lparr>objs = [(new_frame None img_a 100)\<lparr>ocr_data := Some table_a\<rparr>,
                  new_frame (Some (10, 20, 300, 200)) img_b 100.2],
          frame = Some 0,
          screenshots = [None, Some (10, 20, 300, 200), None]\<rparr>"
    by code_simp
  have n: "run_calls ?st1 calls_between \<noteq> ?st1" by code_simp
  have e: "timestamp (objs ?st1 ! 0) = 100" "run_calls ?st1 [] = ?st1" by code_simp+
  from capture_twice_reuses_frame [OF h0 h1 h2 h3, of img_b "100.45"]
  have a: "capture (run_calls ?st1 calls_between) None False 100.4 img_b 100.45
             = (0, run_calls ?st1 calls_between)"
    and b: "timestamp (objs (run_calls ?st1 calls_between) ! 0) = timestamp (objs ?st1 ! 0)"
    by blast+
  from capture_twice_reuses_frame [OF h0 h1 h2e h3, of img_b "100.45"]
  have "capture (run_calls ?st1 []) None False 100.4 img_b 100.45 = (0, run_calls ?st1 [])"
    by blast
  then have c: "capture ?st1 None False 100.4 img_b 100.45 = (0, ?st1)"
    by (simp only: e)
  from b e have b2: "timestamp (objs (run_calls ?st1 calls_between) ! 0) = 100" by simp
  from h0 h1 h2 h3 v n a b2 c show ?thesis by blast
qed

section \<open>Region captures\<close>

text \<open>
  C8: a call of \<open>capture\<close> with a region takes a screenshot of the region and returns
  a new frame that is not stored. The returned frame holds the image the screenshot
  gave, the clock reading taken after it as its timestamp, the width and height of
  the region, and no payload. The slot and every object that existed before, the
  stored frame and its payload among them, are as they were. A second region
  capture takes a screenshot again and returns another new frame, with its own
  image and timestamp, and leaves the first returned frame alone.
\<close>

theorem region_capture_not_stored:
  assumes "capture st (Some (x, y, w, h)) force now img t_new = (r1, st1)"
      and "capture st1 (Some (x', y', w', h')) force' now' img' t_new' = (r2, st2)"
  shows "frame st1 = frame st \<and> frame st2 = frame st
         \<and> (\<forall>r<length (objs st). objs st1 ! r = objs st ! r \<and> objs st2 ! r = objs st ! r)
         \<and> r1 = length (objs st) \<and> r2 = length (objs st) + 1
         \<and> objs st1 = objs st @ [new_frame (Some (x, y, w, h)) img t_new]
         \<and> objs st2 = objs st @ [new_frame (Some (x, y, w, h)) img t_new,
                                  new_frame (Some (x', y', w', h')) img' t_new']
         \<and> screenshots st1 = screenshots st @ [Some (x, y, w, h)]
         \<and> screenshots st2 = screenshots st @ [Some (x, y, w, h), Some (x', y', w', h')]
         \<and> objs st1 ! r1
             = \<lparr>image_cf = img, timestamp = t_new, width_cf = w, height_cf = h,
                ocr_data = None, grayscale = None\<rparr>
         \<and> objs st2 ! r2
             = \<lparr>image_cf = img', timestamp = t_new', width_cf = w', height_cf = h',
                ocr_data = None, grayscale = None\<rparr>
         \<and> objs st2 ! r1 = objs st1 ! r1"
proof -
  from assms(1) have 1: "r1 = length (objs st)"
    "st1 = st\<lparr>objs := objs st @ [new_frame (Some (x, y, w, h)) img t_new],
              screenshots := screenshots st @ [Some (x, y, w, h)]\<rparr>"
    by (auto simp: capture_def fresh_capture_def Let_def split: option.splits)
  from assms(2) have 2: "r2 = length (objs st1)"
    "st2 = st1\<lparr>objs := objs st1 @ [new_frame (Some (x', y', w', h')) img' t_new'],
               screenshots := screenshots st1 @ [Some (x', y', w', h')]\<rparr>"
    by (auto simp: capture_def fresh_capture_def Let_def split: option.splits)
  have n: "new_frame (Some (x, y, w, h)) img t_new
             = \<lparr>image_cf = img, timestamp = t_new, width_cf = w, height_cf = h,
                ocr_data = None, grayscale = None\<rparr>"
    "new_frame (Some (x', y', w', h')) img' t_new'
             = \<lparr>image_cf = img', timestamp = t_new', width_cf = w', height_cf = h',
                ocr_data = None, grayscale = None\<rparr>"
    by (simp_all add: new_frame_def)
  from 1 2 have a: "frame st1 = frame st \<and> frame st2 = frame st
         \<and> (\<forall>r<length (objs st). objs st1 ! r = objs st ! r \<and> objs st2 ! r = objs st ! r)
         \<and> r1 = length (objs st) \<and> r2 = length (objs st) + 1
         \<and> objs st1 = objs st @ [new_frame (Some (x, y, w, h)) img t_new]
         \<and> objs st2 = objs st @ [new_frame (Some (x, y, w, h)) img t_new,
                                  new_frame (Some (x', y', w', h')) img' t_new']
         \<and> screenshots st1 = screenshots st @ [Some (x, y, w, h)]
         \<and> screenshots st2 = screenshots st @ [Some (x, y, w, h), Some (x', y', w', h')]"
    by (simp add: nth_append)
  from 1 2 have b: "objs st1 ! r1 = new_frame (Some (x, y, w, h)) img t_new"
    "objs st2 ! r2 = new_frame (Some (x', y', w', h')) img' t_new'"
    "objs st2 ! r1 = objs st1 ! r1"
    by (simp_all add: nth_append)
  from b(1) n(1) have c1: "objs st1 ! r1
             = \<lparr>image_cf = img, timestamp = t_new, width_cf = w, height_cf = h,
                ocr_data = None, grayscale = None\<rparr>"
    by (rule trans)
  from b(2) n(2) have c2: "objs st2 ! r2
             = \<lparr>image_cf = img', timestamp = t_new', width_cf = w', height_cf = h',
                ocr_data = None, grayscale = None\<rparr>"
    by (rule trans)
  from a c1 c2 b(3) show ?thesis by blast
qed

theorem region_capture_not_stored_witness:
  "capture (stored img_a 100 (Some table_a)) (Some (10, 20, 300, 200)) False 100.1 img_b 100.2
     = (1, \<lparr>objs = [(new_frame None img_a 100)\<lparr>ocr_data := Some table_a\<rparr>,
                    \<lparr>image_cf = img_b, timestamp = 100.2, width_cf = 300, height_cf = 200,
                      ocr_data = None, grayscale = None\<rparr>],
            frame = Some 0,
            screenshots = [None, Some (10, 20, 300, 200)]\<rparr>)
   \<and> fst (capture (snd (capture (stored img_a 100 (Some table_a)) (Some (10, 20, 300, 200))
                           False 100.1 img_b 100.2))
             (Some (0, 0, 64, 48)) False 100.3 img_a 100.4) = 2
   \<and> objs (snd (capture (snd (capture (stored img_a 100 (Some table_a)) (Some (10, 20, 300, 200))
                                  False 100.1 img_b 100.2))
                   (Some (0, 0, 64, 48)) False 100.3 img_a 100.4)) ! 2
       = \<lparr>image_cf = img_a, timestamp = 100.4, width_cf = 64, height_cf = 48,
          ocr_data = None, grayscale = None\<rparr>
   \<and> frame (snd (capture (snd (capture (stored img_a 100 (Some table_a)) (Some (10, 20, 300, 200))
                                  False 100.1 img_b 100.2))
                   (Some (0, 0, 64, 48)) False 100.3 img_a 100.4)) = Some 0
   \<and> objs (snd (capture (snd (capture (stored img_a 100 (Some table_a)) (Some (10, 20, 300, 200))
                                  False 100.1 img_b 100.2))
                   (Some (0, 0, 64, 48)) False 100.3 img_a 100.4)) ! 0
       = (new_frame None img_a 100)\<lparr>ocr_data := Some table_a\<rparr>"
proof -
  let ?st = "stored img_a 100 (Some table_a)"
  let ?f1 = "\<lparr>image_cf = img_b, timestamp = 100.2, width_cf = 300, height_cf = 200,
               ocr_data = None, grayscale = None\<rparr>"
  let ?f2 = "\<lparr>image_cf = img_a, timestamp = 100.4, width_cf = 64, height_cf = 48,
               ocr_data = None, grayscale = None\<rparr>"
  let ?st1 = "\<lparr>objs = [(new_frame None img_a 100)\<lparr>ocr_data := Some table_a\<rparr>, ?f1],
               frame = Some 0, screenshots = [None, Some (10, 20, 300, 200)]\<rparr>"
  let ?st2 = "snd (capture ?st1 (Some (0, 0, 64, 48)) False 100.3 img_a 100.4)"
  let ?r2 = "fst (capture ?st1 (Some (0, 0, 64, 48)) False 100.3 img_a 100.4)"
  have h1: "capture ?st (Some (10, 20, 300, 200)) False 100.1 img_b 100.2 = (1, ?st1)"
    by code_simp
  have h2: "capture ?st1 (Some (0, 0, 64, 48)) False 100.3 img_a 100.4 = (?r2, ?st2)"
    by simp
  have e: "frame ?st = Some 0" "length (objs ?st) = 1" "0 < length (objs ?st)"
    "objs ?st ! 0 = (new_frame None img_a 100)\<lparr>ocr_data := Some table_a\<rparr>"
    by code_simp+
  note t = region_capture_not_stored [OF h1 h2]
  from t have "?r2 = length (objs ?st) + 1" by blast
  with e(2) have r: "?r2 = 2" by simp
  from t have "objs ?st2 ! ?r2 = ?f2" by blast
  with r have o: "objs ?st2 ! 2 = ?f2" by simp
  from t have "frame ?st2 = frame ?st" by blast
  with e(1) have f: "frame ?st2 = Some 0" by simp
  from t e(3) have "objs ?st2 ! 0 = objs ?st ! 0" by blast
  with e have k: "objs ?st2 ! 0 = (new_frame None img_a 100)\<lparr>ocr_data := Some table_a\<rparr>"
    by simp
  from h1 r o f k show ?thesis by simp
qed

section \<open>Attaching the OCR payload\<close>

text \<open>
  C2, as stated, fails: \<open>cache_ocr_data\<close> does not compare the stored frame with the frame
  the engine ran on. One run of \<open>ocr_full_screen\<close> captures frame 0 (image \<open>img_a\<close>) on
  an empty cache; before it attaches, another thread's forced \<open>capture\<close> replaces the
  stored frame by frame 1 (image \<open>img_b\<close>); \<open>ocr_attach\<close> for frame 0 then puts the
  table of \<open>img_a\<close> on frame 1, whose own table would be another, and frame 0, on
  which the engine ran, is left without a payload.
\<close>

theorem payload_attached_to_replaced_frame:
  "capture init_state None True 0 img_a 100 = (0, stored img_a 100 None)
   \<and> fst (capture (stored img_a 100 None) None True 0 img_b 100.2) = 1
   \<and> frame (snd (ocr_attach pf_demo ocr_demo
               (snd (capture (stored img_a 100 None) None True 0 img_b 100.2)) 0 ''eng'' 3))
       = Some 1
   \<and> image_cf (objs (snd (ocr_attach pf_demo ocr_demo
               (snd (capture (stored img_a 100 None) None True 0 img_b 100.2)) 0 ''eng'' 3)) ! 1)
       = img_b
   \<and> ocr_data (objs (snd (ocr_attach pf_demo ocr_demo
               (snd (capture (stored img_a 100 None) None True 0 img_b 100.2)) 0 ''eng'' 3)) ! 1)
       = Some (ocr_demo img_a ''eng'' (Some 3))
   \<and> ocr_demo img_a ''eng'' (Some 3) \<noteq> ocr_demo img_b ''eng'' (Some 3)
   \<and> ocr_data (objs (snd (ocr_attach pf_demo ocr_demo
               (snd (capture (stored img_a 100 None) None True 0 img_b 100.2)) 0 ''eng'' 3)) ! 0)
       = None"
  by code_simp

text \<open>
  C2, amended: the payload of the full-screen OCR path is attached to whichever frame
  is stored when \<open>cache_ocr_data\<close> runs, with no check that it is the frame the engine
  ran on. If the stored frame was cleared in between, the payload is dropped and the
  state is unchanged; if it was replaced, the replacing frame \<open>r'\<close> receives the payload
  computed from the image of \<open>r\<close>, and no other object changes. In a run of
  \<open>ocr_full_screen\<close> that nothing interrupts and that does not answer from the cache,
  the stored frame is the new frame the engine ran on, and it carries the payload.
\<close>

theorem payload_goes_to_stored_frame:
  "(frame st = None \<longrightarrow> snd (ocr_attach pf ocr st r lang psm) = st)
   \<and> (frame st = Some r' \<and> r' < length (objs st) \<longrightarrow>
        frame (snd (ocr_attach pf ocr st r lang psm)) = Some r'
        \<and> objs (snd (ocr_attach pf ocr st r lang psm)) ! r'
            = (objs st ! r')\<lparr>ocr_data := Some (ocr (image_cf (objs st ! r)) lang (Some psm))\<rparr>
        \<and> (\<forall>q. q \<noteq> r' \<longrightarrow> objs (snd (ocr_attach pf ocr st r lang psm)) ! q = objs st ! q)
        \<and> length (objs (snd (ocr_attach pf ocr st r lang psm))) = length (objs st)
        \<and> screenshots (snd (ocr_attach pf ocr st r lang psm)) = screenshots st)
   \<and> ((use_cache \<longrightarrow> get_cached_ocr st now = None) \<and> configure_tesseract tess = Inr cmd \<longrightarrow>
        frame (snd (ocr_full_screen pf tess ocr st lang use_cache psm now img t_new))
          = Some (length (objs st))
        \<and> objs (snd (ocr_full_screen pf tess ocr st lang use_cache psm now img t_new))
            = objs st @ [(new_frame None img t_new)\<lparr>ocr_data := Some (ocr img lang (Some psm))\<rparr>]
        \<and> screenshots (snd (ocr_full_screen pf tess ocr st lang use_cache psm now img t_new))
            = screenshots st @ [None])"
proof -
  have 1: "frame st = None \<longrightarrow> snd (ocr_attach pf ocr st r lang psm) = st"
    by (simp add: ocr_attach_def cache_ocr_data_def Let_def)
  have 2: "frame st = Some r' \<and> r' < length (objs st) \<longrightarrow>
        frame (snd (ocr_attach pf ocr st r lang psm)) = Some r'
        \<and> objs (snd (ocr_attach pf ocr st r lang psm)) ! r'
            = (objs st ! r')\<lparr>ocr_data := Some (ocr (image_cf (objs st ! r)) lang (Some psm))\<rparr>
        \<and> (\<forall>q. q \<noteq> r' \<longrightarrow> objs (snd (ocr_attach pf ocr st r lang psm)) ! q = objs st ! q)
        \<and> length (objs (snd (ocr_attach pf ocr st r lang psm))) = length (objs st)
        \<and> screenshots (snd (ocr_attach pf ocr st r lang psm)) = screenshots st"
    by (simp add: ocr_attach_def cache_ocr_data_def Let_def)
  have 3: "(use_cache \<longrightarrow> get_cached_ocr st now = None) \<and> configure_tesseract tess = Inr cmd \<longrightarrow>
        frame (snd (ocr_full_screen pf tess ocr st lang use_cache psm now img t_new))
          = Some (length (objs st))
        \<and> objs (snd (ocr_full_screen pf tess ocr st lang use_cache psm now img t_new))
            = objs st @ [(new_frame None img t_new)\<lparr>ocr_data := Some (ocr img lang (Some psm))\<rparr>]
        \<and> screenshots (snd (ocr_full_screen pf tess ocr st lang use_cache psm now img t_new))
            = screenshots st @ [None]"
    by (auto simp: ocr_full_screen_def capture_forced fresh_capture_def ocr_attach_def
                   cache_ocr_data_def image_cf_new_frame Let_def)
  from 1 2 3 show ?thesis by blast
qed

theorem payload_goes_to_stored_frame_witness:
  "frame (invalidate (stored img_a 100 None)) = None
   \<and> snd (ocr_attach pf_demo ocr_demo (invalidate (stored img_a 100 None)) 0 ''eng'' 3)
       = invalidate (stored img_a 100 None)
   \<and> frame (stored img_a 100 None) = Some 0
   \<and> objs (snd (ocr_attach pf_demo ocr_demo (stored img_a 100 None) 0 ''eng'' 3)) ! 0
       = (new_frame None img_a 100)\<lparr>ocr_data := Some table_a\<rparr>
   \<and> configure_tesseract tess_ok = Inr ''/usr/bin/tesseract''
   \<and> get_cached_ocr init_state 7 = None
   \<and> snd (ocr_full_screen pf_demo tess_ok ocr_demo init_state ''eng'' True 3 7 img_a 100)
       = stored img_a 100 (Some table_a)"
proof -
  let ?st = "stored img_a 100 None"
  have h1: "frame (invalidate ?st) = None" by code_simp
  have h2: "frame ?st = Some 0 \<and> 0 < length (objs ?st)" by code_simp
  have h3: "(True \<longrightarrow> get_cached_ocr init_state 7 = None)
            \<and> configure_tesseract tess_ok = Inr ''/usr/bin/tesseract''" by code_simp
  have e: "ocr_demo (image_cf (objs ?st ! 0)) ''eng'' (Some 3) = table_a"
    "objs ?st ! 0 = new_frame None img_a 100" "ocr_demo img_a ''eng'' (Some 3) = table_a"
    "objs init_state = []" "screenshots init_state = []"
    by code_simp+
  from payload_goes_to_stored_frame [of "invalidate ?st" pf_demo ocr_demo 0 "''eng''" 3] h1
  have 1: "snd (ocr_attach pf_demo ocr_demo (invalidate ?st) 0 ''eng'' 3) = invalidate ?st"
    by blast
  from payload_goes_to_stored_frame [of ?st pf_demo ocr_demo 0 "''eng''" 3 0] h2
  have "objs (snd (ocr_attach pf_demo ocr_demo ?st 0 ''eng'' 3)) ! 0
             = (objs ?st ! 0)\<lparr>ocr_data := Some (ocr_demo (image_cf (objs ?st ! 0)) ''eng'' (Some 3))\<rparr>"
    by blast
  then have 2: "objs (snd (ocr_attach pf_demo ocr_demo ?st 0 ''eng'' 3)) ! 0
             = (new_frame None img_a 100)\<lparr>ocr_data := Some table_a\<rparr>"
    by (simp add: e image_cf_new_frame)
  let ?res = "snd (ocr_full_screen pf_demo tess_ok ocr_demo init_state ''eng'' True 3 7 img_a 100)"
  from payload_goes_to_stored_frame
         [where st = init_state and pf = pf_demo and ocr = ocr_demo and lang = "''eng''"
            and psm = 3 and use_cache = True and now = 7 and tess = tess_ok
            and cmd = "''/usr/bin/tesseract''" and img = img_a and t_new = 100] h3
  have "frame ?res = Some (length (objs init_state))
        \<and> objs ?res = objs init_state @ [(new_frame None img_a 100)\<lparr>ocr_data := Some (ocr_demo img_a ''eng'' (Some 3))\<rparr>]
        \<and> screenshots ?res = screenshots init_state @ [None]"
    by blast
  then have 3: "?res = stored img_a 100 (Some table_a)"
    by (simp add: e stored_def)
  from h1 h2 h3 1 2 3 show ?thesis by simp
qed

section \<open>The screenshot tool\<close>

text \<open>
  C4, as stated, fails: with no region \<open>get_screen\<close> goes through
  \<open>capture_with_metadata\<close>, which calls \<open>capture\<close> with \<open>force=True\<close>. Here the cache
  holds a frame of \<open>img_a\<close> that is 100 ms old, so \<open>capture\<close> with \<open>force\<close> unset would
  return it and leave the state alone; \<open>get_screen\<close> takes a second screenshot, stores
  the new frame in place of the old one and returns the bytes of the new image
  \<open>img_b\<close>.
\<close>

theorem get_screen_does_not_reuse:
  "\<not> is_stale 100.1 (objs (stored img_a 100 None) ! 0) 500
   \<and> capture (stored img_a 100 None) None False 100.1 img_b 100.2 = (0, stored img_a 100 None)
   \<and> snd (get_screen enc_demo (stored img_a 100 None) None 50 100.1 img_b 100.2 (0, 0))
       \<noteq> stored img_a 100 None
   \<and> screenshots (snd (get_screen enc_demo (stored img_a 100 None) None 50 100.1 img_b 100.2 (0, 0)))
       = [None, None]
   \<and> frame (snd (get_screen enc_demo (stored img_a 100 None) None 50 100.1 img_b 100.2 (0, 0)))
       = Some 1
   \<and> fst (get_screen enc_demo (stored img_a 100 None) None 50 100.1 img_b 100.2 (0, 0))
       = Inr (jpeg_bytes enc_demo img_b 50, Jpeg)
   \<and> jpeg_bytes enc_demo img_b 50 \<noteq> jpeg_bytes enc_demo img_a 50"
  by code_simp

text \<open>
  C4, amended: \<open>get_screen\<close> with no region (or an empty region dict) performs
  \<open>capture\<close> with \<open>force=True\<close>: it always takes a new full-screen screenshot, stores
  the new frame in place of any stored one, also a fresh one, and returns the JPEG
  bytes of the new image. With a region it takes a screenshot of the region directly
  and does not touch the frame cache.
\<close>

theorem get_screen_forces_capture:
  "(region_tuple_of region = Inr None \<longrightarrow>
      get_screen enc st region quality now img t_new mouse
        = (Inr (jpeg_bytes enc img quality, Jpeg), snd (capture st None True now img t_new))
      \<and> frame (snd (get_screen enc st region quality now img t_new mouse))
          = Some (length (objs st))
      \<and> objs (snd (get_screen enc st region quality now img t_new mouse))
          = objs st @ [new_frame None img t_new]
      \<and> screenshots (snd (get_screen enc st region quality now img t_new mouse))
          = screenshots st @ [None])
   \<and> (region_tuple_of region = Inr (Some rt) \<longrightarrow>
      get_screen enc st region quality now img t_new mouse
        = (Inr (jpeg_bytes enc img quality, Jpeg),
           st\<lparr>screenshots := screenshots st @ [Some rt]\<rparr>))
   \<and> region_tuple_of None = Inr None"
proof -
  have "region_tuple_of None = Inr None"
    by (simp add: region_tuple_of_def)
  then show ?thesis
    by (auto simp: get_screen_def capture_with_metadata_def capture_screenshot_def capture_forced
                   fresh_capture_def image_cf_new_frame encode_def Let_def)
qed

theorem get_screen_forces_capture_witness:
  "region_tuple_of None = Inr None
   \<and> get_screen enc_demo (stored img_a 100 None) None 50 100.1 img_b 100.2 (3, 4)
       = (Inr ([2, 50], Jpeg), snd (capture (stored img_a 100 None) None True 100.1 img_b 100.2))
   \<and> frame (snd (get_screen enc_demo (stored img_a 100 None) None 50 100.1 img_b 100.2 (3, 4)))
       = Some 1
   \<and> region_tuple_of (Some [(''x'', 10), (''y'', 20), (''width'', 300), (''height'', 200)])
       = Inr (Some (10, 20, 300, 200))
   \<and> frame (snd (get_screen enc_demo (stored img_a 100 None)
               (Some [(''x'', 10), (''y'', 20), (''width'', 300), (''height'', 200)])
               50 100.1 img_b 100.2 (3, 4))) = Some 0"
proof -
  let ?st = "stored img_a 100 None"
  let ?d = "[(''x'', 10), (''y'', 20), (''width'', 300), (''height'', 200)] :: (string \<times> int) list"
  have h1: "region_tuple_of None = Inr None" by code_simp
  have h2: "region_tuple_of (Some ?d) = Inr (Some (10, 20, 300, 200))" by code_simp
  have e: "jpeg_bytes enc_demo img_b 50 = [2, 50]" "length (objs ?st) = 1" "frame ?st = Some 0"
    by code_simp+
  from get_screen_forces_capture [of None enc_demo ?st 50 "100.1" img_b "100.2" "(3, 4)"] h1
  have x: "get_screen enc_demo ?st None 50 100.1 img_b 100.2 (3, 4)
             = (Inr (jpeg_bytes enc_demo img_b 50, Jpeg), snd (capture ?st None True 100.1 img_b 100.2))
           \<and> frame (snd (get_screen enc_demo ?st None 50 100.1 img_b 100.2 (3, 4)))
               = Some (length (objs ?st))"
    by blast
  from x [THEN conjunct1] e(1)
  have 1: "get_screen enc_demo ?st None 50 100.1 img_b 100.2 (3, 4)
             = (Inr ([2, 50], Jpeg), snd (capture ?st None True 100.1 img_b 100.2))"
    by simp
  from x [THEN conjunct2] e(2)
  have 5: "frame (snd (get_screen enc_demo ?st None 50 100.1 img_b 100.2 (3, 4))) = Some 1"
    by simp
  from get_screen_forces_capture
         [of "Some ?d" enc_demo ?st 50 "100.1" img_b "100.2" "(3, 4)" "(10, 20, 300, 200)"] h2
  have "get_screen enc_demo ?st (Some ?d) 50 100.1 img_b 100.2 (3, 4)
          = (Inr (jpeg_bytes enc_demo img_b 50, Jpeg),
             ?st\<lparr>screenshots := screenshots ?st @ [Some (10, 20, 300, 200)]\<rparr>)"
    by blast
  then have 2: "frame (snd (get_screen enc_demo ?st (Some ?d) 50 100.1 img_b 100.2 (3, 4))) = Some 0"
    by (simp add: e)
  from h1 h2 1 5 2 show ?thesis by blast
qed

section \<open>Template matches\<close>

text \<open>
  C9: every match \<open>find_template_on_screen\<close> returns carries, as its confidence, the
  \<open>confidence\<close> argument of the call (a located box has no score of its own), and no
  text; so the confidences of one call are all the same.
\<close>

theorem template_confidence_is_threshold:
  "(\<forall>m\<in>set (find_template_on_screen locate template_path c g).
        confidence m = c \<and> text_em m = None)
   \<and> map confidence (find_template_on_screen locate template_path c g)
       = replicate (length (find_template_on_screen locate template_path c g)) c"
  by (auto simp: find_template_on_screen_def Let_def map_replicate_const comp_def)

theorem template_confidence_is_threshold_witness:
  "find_template_on_screen locate_demo ''ok.png'' 0.8 True
     = [\<lparr>bbox = \<lparr>x_bb = 5, y_bb = 6, width_bb = 7, height_bb = 8\<rparr>,
          confidence = 0.8, text_em = None\<rparr>,
        \<lparr>bbox = \<lparr>x_bb = 50, y_bb = 60, width_bb = 7, height_bb = 8\<rparr>,
          confidence = 0.8, text_em = None\<rparr>]
   \<and> map confidence (find_template_on_screen locate_demo ''ok.png'' 0.8 True) = [0.8, 0.8]"
proof -
  have v: "find_template_on_screen locate_demo ''ok.png'' 0.8 True
     = [\<lparr>bbox = \<lparr>x_bb = 5, y_bb = 6, width_bb = 7, height_bb = 8\<rparr>,
          confidence = 0.8, text_em = None\<rparr>,
        \<lparr>bbox = \<lparr>x_bb = 50, y_bb = 60, width_bb = 7, height_bb = 8\<rparr>,
          confidence = 0.8, text_em = None\<rparr>]"
    by code_simp
  then have l: "length (find_template_on_screen locate_demo ''ok.png'' 0.8 True) = 2"
    by simp
  from template_confidence_is_threshold [of locate_demo "''ok.png''" "0.8" True]
  have "map confidence (find_template_on_screen locate_demo ''ok.png'' 0.8 True)
          = replicate (length (find_template_on_screen locate_demo ''ok.png'' 0.8 True)) 0.8"
    by blast
  then have "map confidence (find_template_on_screen locate_demo ''ok.png'' 0.8 True) = [0.8, 0.8]"
    by (simp only: l replicate.simps numeral_2_eq_2)
  with v show ?thesis by blast
qed

section \<open>The screen text query and the frame cache\<close>

text \<open>
  C10: whatever \<open>find_text_on_screen\<close> returns, a list or an exception, the slot of the
  frame cache and every frame object are after the call as they were before it: the
  stored frame, its timestamp and its payload are the same, and so are the answers
  of \<open>get_cached\<close> and \<open>get_cached_ocr\<close>. The only trace of the call is the one
  screenshot it takes itself once tesseract is configured.
\<close>

theorem find_text_on_screen_leaves_cache:
  "frame (snd (find_text_on_screen pf tess ocr st text_arg lang region mc img)) = frame st
   \<and> objs (snd (find_text_on_screen pf tess ocr st text_arg lang region mc img)) = objs st
   \<and> get_cached (snd (find_text_on_screen pf tess ocr st text_arg lang region mc img)) m t
       = get_cached st m t
   \<and> get_cached_ocr (snd (find_text_on_screen pf tess ocr st text_arg lang region mc img)) t
       = get_cached_ocr st t
   \<and> screenshots (snd (find_text_on_screen pf tess ocr st text_arg lang region mc img))
       = (case configure_tesseract tess of
            Inl e \<Rightarrow> screenshots st
          | Inr cmd \<Rightarrow> screenshots st @ [region])"
  by (simp add: find_text_on_screen_def get_cached_def get_cached_ocr_def Let_def
           split: sum.splits prod.splits option.splits)

theorem find_text_on_screen_leaves_cache_witness:
  "snd (find_text_on_screen pf_demo tess_ok ocr_demo (stored img_b 100 (Some table_mixed))
          ''sub'' ''eng'' None 0.3 img_a)
     = (stored img_b 100 (Some table_mixed))\<lparr>screenshots := [None, None]\<rparr>
   \<and> frame (snd (find_text_on_screen pf_demo tess_ok ocr_demo (stored img_b 100 (Some table_mixed))
          ''sub'' ''eng'' None 0.3 img_a)) = Some 0
   \<and> objs (snd (find_text_on_screen pf_demo tess_ok ocr_demo (stored img_b 100 (Some table_mixed))
          ''sub'' ''eng'' None 0.3 img_a))
       = [(new_frame None img_b 100)\<lparr>ocr_data := Some table_mixed\<rparr>]"
proof -
  let ?st = "stored img_b 100 (Some table_mixed)"
  let ?st' = "snd (find_text_on_screen pf_demo tess_ok ocr_demo ?st ''sub'' ''eng'' None 0.3 img_a)"
  have v: "?st' = ?st\<lparr>screenshots := [None, None]\<rparr>"
    by code_simp
  have e: "frame ?st = Some 0" "objs ?st = [(new_frame None img_b 100)\<lparr>ocr_data := Some table_mixed\<rparr>]"
    by (simp_all add: stored_def)
  from find_text_on_screen_leaves_cache
         [of pf_demo tess_ok ocr_demo ?st "''sub''" "''eng''" None "0.3" img_a]
  have "frame ?st' = frame ?st \<and> objs ?st' = objs ?st"
    by blast
  with e v show ?thesis by simp
qed

section \<open>Confidence of OCR tokens\<close>

text \<open>
  C5, as stated, fails for negative scores: nothing clamps them. The cached table holds
  one token, \<open>OK\<close>, with the engine score \<open>-1\<close>; its confidence is \<open>-1/100\<close>, not \<open>0\<close>.
  With the floor \<open>-1\<close> \<open>find_text_in_ocr_cache\<close> returns the match with that negative
  confidence, and with the floor \<open>0\<close> it returns nothing, although a confidence of \<open>0\<close>
  would pass that floor.
\<close>

theorem negative_score_is_not_clamped:
  "token_conf pf_demo table_neg 0 [ValueError, TypeError] = Inr (- 1 / 100)
   \<and> token_conf pf_demo table_neg 0 [ValueError] = Inr (- 1 / 100)
   \<and> find_text_in_ocr_cache pf_demo (stored img_a 100 (Some table_neg)) ''ok'' (- 1) 100.1
       = Inr [\<lparr>bbox = \<lparr>x_bb = 5, y_bb = 6, width_bb = 20, height_bb = 10\<rparr>,
               confidence = - 1 / 100, text_em = Some ''OK''\<rparr>]
   \<and> find_text_in_ocr_cache pf_demo (stored img_a 100 (Some table_neg)) ''ok'' 0 100.1 = Inr []
   \<and> fst (find_text_on_screen pf_demo tess_ok ocr_demo init_state ''ok'' ''eng'' None (- 1) img_b)
       = Inr [\<lparr>bbox = \<lparr>x_bb = 5, y_bb = 6, width_bb = 20, height_bb = 10\<rparr>,
               confidence = - 1 / 100, text_em = Some ''OK''\<rparr>]"
  by code_simp

text \<open>
  C5, amended: for every OCR token the three paths process, an engine score that is a
  number \<open>c\<close> gives the confidence \<open>c / 100\<close>, also when \<open>c\<close> is negative (there is no
  clamp to \<open>0\<close>), and a score that is a string \<open>float\<close> rejects gives the confidence
  \<open>0\<close> instead of an error. Every match returned by \<open>find_text_on_screen\<close> and
  \<open>find_text_in_ocr_cache\<close>, and every dict returned by \<open>_ocr_data_to_matches\<close>, is the
  match of one row of the table: it has that row's text and box and, as its
  confidence, what the \<open>try\<close> block computes from that same row's score; that
  confidence is at least \<open>min_confidence\<close>, so no returned confidence is negative
  when the floor is not. On an aligned table \<open>_ocr_data_to_matches\<close> and
  \<open>find_text_in_ocr_cache\<close> raise nothing, whatever the scores are, and
  \<open>find_text_on_screen\<close> raises nothing when tesseract is configured and every score is a
  number or a string; the result is then exactly what the rows give one by one,
  each from its own text, score and box (sorted, for the two text queries).
\<close>

theorem token_confidence:
  "(i < length (conf_col data) \<and> conf_col data ! i = ConfNum c \<longrightarrow>
      token_conf pf data i caught = Inr (c / 100))
   \<and> (k < length (conf_col data) \<and> conf_col data ! k = ConfStr s \<and> pf s = None
        \<and> ValueError \<in> set caught \<longrightarrow>
      token_conf pf data k caught = Inr 0)
   \<and> conf_or_zero pf (ConfNum c) = c / 100
   \<and> (pf s = None \<longrightarrow> conf_or_zero pf (ConfStr s) = 0)
   \<and> (fst (find_text_on_screen pf tess ocr st text_arg lang region mc img) = Inr ms \<longrightarrow>
        (\<forall>m\<in>set ms. mc \<le> confidence m
           \<and> (\<exists>j<length (text_col (ocr img lang None)).
                 token_conf pf (ocr img lang None) j [ValueError] = Inr (confidence m)
                 \<and> text_em m = Some (text_col (ocr img lang None) ! j)
                 \<and> bbox m = \<lparr>x_bb = fst (region_offset region) + left_col (ocr img lang None) ! j,
                               y_bb = snd (region_offset region) + top_col (ocr img lang None) ! j,
                               width_bb = width_col (ocr img lang None) ! j,
                               height_bb = height_col (ocr img lang None) ! j\<rparr>)))
   \<and> (find_text_in_ocr_cache pf st text_arg mc now = Inr ms' \<longrightarrow>
        (\<forall>m\<in>set ms'. mc \<le> confidence m
           \<and> (\<exists>cached j. get_cached_ocr st now = Some cached \<and> j < length (text_col cached)
                 \<and> token_conf pf cached j [ValueError, TypeError] = Inr (confidence m)
                 \<and> text_em m = Some (text_col cached ! j)
                 \<and> bbox m = \<lparr>x_bb = left_col cached ! j, y_bb = top_col cached ! j,
                               width_bb = width_col cached ! j,
                               height_bb = height_col cached ! j\<rparr>)))
   \<and> (ocr_data_to_matches pf data mc = Inr rs \<longrightarrow>
        (\<forall>d\<in>set rs. mc \<le> confidence_d d
           \<and> (\<exists>j<length (text_col data).
                 token_conf pf data j [ValueError, TypeError] = Inr (confidence_d d)
                 \<and> text_d d = text_col data ! j
                 \<and> bbox_d d = \<lparr>x_d = left_col data ! j, y_d = top_col data ! j,
                                 width_d = width_col data ! j, height_d = height_col data ! j,
                                 center_x_d = left_col data ! j + width_col data ! j div 2,
                                 center_y_d = top_col data ! j + height_col data ! j div 2\<rparr>)))
   \<and> (aligned data \<longrightarrow>
        ocr_data_to_matches pf data mc
          = Inr (concat (map (scan_row_spec pf data mc) [0..<length (text_col data)])))
   \<and> (get_cached_ocr st now = None \<longrightarrow>
        find_text_in_ocr_cache pf st text_arg mc now = Inr [])
   \<and> (get_cached_ocr st now = Some cached \<and> aligned cached \<longrightarrow>
        find_text_in_ocr_cache pf st text_arg mc now
          = Inr (sorted_py confidence True
                   (concat (map (text_row_spec pf cached text_arg mc 0 0)
                              [0..<length (text_col cached)]))))
   \<and> (configure_tesseract tess = Inr cmd \<and> aligned (ocr img lang None)
        \<and> ConfNone \<notin> set (conf_col (ocr img lang None)) \<longrightarrow>
        fst (find_text_on_screen pf tess ocr st text_arg lang region mc img)
          = Inr (sorted_py confidence True
                   (concat (map (text_row_spec pf (ocr img lang None) text_arg mc
                                   (fst (region_offset region)) (snd (region_offset region)))
                              [0..<length (text_col (ocr img lang None))]))))"
proof -
  have 1: "i < length (conf_col data) \<and> conf_col data ! i = ConfNum c \<longrightarrow>
      token_conf pf data i caught = Inr (c / 100)"
    by (simp add: token_conf_num)
  have 2: "k < length (conf_col data) \<and> conf_col data ! k = ConfStr s \<and> pf s = None
        \<and> ValueError \<in> set caught \<longrightarrow> token_conf pf data k caught = Inr 0"
    by (simp add: token_conf_bad_string)
  have 3: "conf_or_zero pf (ConfNum c) = c / 100"
    by (simp add: conf_or_zero_def py_float_def)
  have 4: "pf s = None \<longrightarrow> conf_or_zero pf (ConfStr s) = 0"
    by (simp add: conf_or_zero_def py_float_def)
  have 5: "fst (find_text_on_screen pf tess ocr st text_arg lang region mc img) = Inr ms \<longrightarrow>
        (\<forall>m\<in>set ms. mc \<le> confidence m
           \<and> (\<exists>j<length (text_col (ocr img lang None)).
                 token_conf pf (ocr img lang None) j [ValueError] = Inr (confidence m)
                 \<and> text_em m = Some (text_col (ocr img lang None) ! j)
                 \<and> bbox m = \<lparr>x_bb = fst (region_offset region) + left_col (ocr img lang None) ! j,
                               y_bb = snd (region_offset region) + top_col (ocr img lang None) ! j,
                               width_bb = width_col (ocr img lang None) ! j,
                               height_bb = height_col (ocr img lang None) ! j\<rparr>))"
  proof (intro impI ballI)
    fix m
    assume r: "fst (find_text_on_screen pf tess ocr st text_arg lang region mc img) = Inr ms"
      and m: "m \<in> set ms"
    from find_text_on_screen_result [OF r] m
    have "m \<in> set (screen_emission pf (ocr img lang None) text_arg region mc)"
      by (simp add: sorted_py_set)
    then obtain j where "m \<in> set (row_out (find_text_body pf (ocr img lang None) (lower text_arg) mc
                    (fst (region_offset region)) (snd (region_offset region))) j)"
      by (auto simp: screen_emission_def)
    from find_text_body_out [OF this]
    show "mc \<le> confidence m
           \<and> (\<exists>j<length (text_col (ocr img lang None)).
                 token_conf pf (ocr img lang None) j [ValueError] = Inr (confidence m)
                 \<and> text_em m = Some (text_col (ocr img lang None) ! j)
                 \<and> bbox m = \<lparr>x_bb = fst (region_offset region) + left_col (ocr img lang None) ! j,
                               y_bb = snd (region_offset region) + top_col (ocr img lang None) ! j,
                               width_bb = width_col (ocr img lang None) ! j,
                               height_bb = height_col (ocr img lang None) ! j\<rparr>)"
      by blast
  qed
  have 6: "find_text_in_ocr_cache pf st text_arg mc now = Inr ms' \<longrightarrow>
        (\<forall>m\<in>set ms'. mc \<le> confidence m
           \<and> (\<exists>cached j. get_cached_ocr st now = Some cached \<and> j < length (text_col cached)
                 \<and> token_conf pf cached j [ValueError, TypeError] = Inr (confidence m)
                 \<and> text_em m = Some (text_col cached ! j)
                 \<and> bbox m = \<lparr>x_bb = left_col cached ! j, y_bb = top_col cached ! j,
                               width_bb = width_col cached ! j,
                               height_bb = height_col cached ! j\<rparr>))"
  proof (intro impI ballI)
    fix m
    assume r: "find_text_in_ocr_cache pf st text_arg mc now = Inr ms'" and m: "m \<in> set ms'"
    from find_text_in_ocr_cache_result [OF r] m
    have "m \<in> set (cache_emission pf (get_cached_ocr st now) text_arg mc)"
      by (simp add: sorted_py_set)
    then obtain cached j where c: "get_cached_ocr st now = Some cached"
      and "m \<in> set (row_out (cache_text_body pf cached (lower text_arg) mc) j)"
      by (cases "get_cached_ocr st now") (auto simp: cache_emission_def)
    from cache_text_body_out [OF this(2)] c
    show "mc \<le> confidence m
           \<and> (\<exists>cached j. get_cached_ocr st now = Some cached \<and> j < length (text_col cached)
                 \<and> token_conf pf cached j [ValueError, TypeError] = Inr (confidence m)
                 \<and> text_em m = Some (text_col cached ! j)
                 \<and> bbox m = \<lparr>x_bb = left_col cached ! j, y_bb = top_col cached ! j,
                               width_bb = width_col cached ! j,
                               height_bb = height_col cached ! j\<rparr>)"
      by blast
  qed
  have 7: "ocr_data_to_matches pf data mc = Inr rs \<longrightarrow>
        (\<forall>d\<in>set rs. mc \<le> confidence_d d
           \<and> (\<exists>j<length (text_col data).
                 token_conf pf data j [ValueError, TypeError] = Inr (confidence_d d)
                 \<and> text_d d = text_col data ! j
                 \<and> bbox_d d = \<lparr>x_d = left_col data ! j, y_d = top_col data ! j,
                                 width_d = width_col data ! j, height_d = height_col data ! j,
                                 center_x_d = left_col data ! j + width_col data ! j div 2,
                                 center_y_d = top_col data ! j + height_col data ! j div 2\<rparr>))"
  proof (intro impI ballI)
    fix d
    assume r: "ocr_data_to_matches pf data mc = Inr rs" and d: "d \<in> set rs"
    from ocr_data_to_matches_result [OF r] d
    obtain j where "d \<in> set (row_out (ocr_data_body pf data mc) j)"
      by auto
    from ocr_data_body_out [OF this]
    show "mc \<le> confidence_d d
           \<and> (\<exists>j<length (text_col data).
                 token_conf pf data j [ValueError, TypeError] = Inr (confidence_d d)
                 \<and> text_d d = text_col data ! j
                 \<and> bbox_d d = \<lparr>x_d = left_col data ! j, y_d = top_col data ! j,
                                 width_d = width_col data ! j, height_d = height_col data ! j,
                                 center_x_d = left_col data ! j + width_col data ! j div 2,
                                 center_y_d = top_col data ! j + height_col data ! j div 2\<rparr>)"
      by blast
  qed
  have 8: "aligned data \<longrightarrow>
        ocr_data_to_matches pf data mc
          = Inr (concat (map (scan_row_spec pf data mc) [0..<length (text_col data)]))"
    by (simp add: ocr_data_to_matches_rows)
  have 9: "get_cached_ocr st now = None \<longrightarrow>
        find_text_in_ocr_cache pf st text_arg mc now = Inr []"
    by (simp add: find_text_in_ocr_cache_empty)
  have 10: "get_cached_ocr st now = Some cached \<and> aligned cached \<longrightarrow>
        find_text_in_ocr_cache pf st text_arg mc now
          = Inr (sorted_py confidence True
                   (concat (map (text_row_spec pf cached text_arg mc 0 0)
                              [0..<length (text_col cached)])))"
    using find_text_in_ocr_cache_rows by blast
  have 11: "configure_tesseract tess = Inr cmd \<and> aligned (ocr img lang None)
        \<and> ConfNone \<notin> set (conf_col (ocr img lang None)) \<longrightarrow>
        fst (find_text_on_screen pf tess ocr st text_arg lang region mc img)
          = Inr (sorted_py confidence True
                   (concat (map (text_row_spec pf (ocr img lang None) text_arg mc
                                   (fst (region_offset region)) (snd (region_offset region)))
                              [0..<length (text_col (ocr img lang None))])))"
    using find_text_on_screen_rows by blast
  from 1 2 3 4 5 6 7 8 9 10 11 show ?thesis by blast
qed

theorem token_confidence_witness:
  "conf_col table_mixed ! 2 = ConfNum 80
   \<and> token_conf pf_demo table_mixed 2 [ValueError] = Inr (80 / 100)
   \<and> conf_col table_mixed ! 0 = ConfStr ''??'' \<and> pf_demo ''??'' = None
   \<and> token_conf pf_demo table_mixed 0 [ValueError] = Inr 0
   \<and> conf_or_zero pf_demo (ConfStr ''??'') = 0
   \<and> configure_tesseract tess_ok = Inr ''/usr/bin/tesseract''
   \<and> aligned (ocr_demo img_a ''eng'' None)
   \<and> ConfNone \<notin> set (conf_col (ocr_demo img_a ''eng'' None))
   \<and> fst (find_text_on_screen pf_demo tess_ok ocr_demo init_state ''SUB'' ''eng''
            (Some (100, 200, 640, 480)) 0.1 img_a)
       = Inr [\<lparr>bbox = \<lparr>x_bb = 110, y_bb = 210, width_bb = 50, height_bb = 20\<rparr>,
               confidence = 92 / 100, text_em = Some ''Submit''\<rparr>,
              \<lparr>bbox = \<lparr>x_bb = 300, y_bb = 400, width_bb = 30, height_bb = 15\<rparr>,
               confidence = 20 / 100, text_em = Some ''sub''\<rparr>]
   \<and> (0.1 :: real) \<le> 20 / 100
   \<and> token_conf pf_demo (ocr_demo img_a ''eng'' None) 1 [ValueError] = Inr (20 / 100)
   \<and> get_cached_ocr (stored img_a 100 (Some table_mixed)) 100.2 = Some table_mixed
   \<and> aligned table_mixed
   \<and> find_text_in_ocr_cache pf_demo (stored img_a 100 (Some table_mixed)) ''GO'' 0 100.2
       = Inr [\<lparr>bbox = \<lparr>x_bb = 3, y_bb = 13, width_bb = 20, height_bb = 9\<rparr>,
               confidence = 4 / 5, text_em = Some ''Go''\<rparr>,
              \<lparr>bbox = \<lparr>x_bb = 4, y_bb = 14, width_bb = 60, height_bb = 9\<rparr>,
               confidence = 4 / 5, text_em = Some ''gopher''\<rparr>,
              \<lparr>bbox = \<lparr>x_bb = 1, y_bb = 11, width_bb = 20, height_bb = 9\<rparr>,
               confidence = 0, text_em = Some ''go''\<rparr>,
              \<lparr>bbox = \<lparr>x_bb = 5, y_bb = 15, width_bb = 30, height_bb = 9\<rparr>,
               confidence = 0, text_em = Some ''ago''\<rparr>]
   \<and> get_cached_ocr init_state 100.2 = None
   \<and> find_text_in_ocr_cache pf_demo init_state ''GO'' 0 100.2 = Inr []
   \<and> ocr_data_to_matches pf_demo table_mixed (1 / 2)
       = Inr [\<lparr>text_d = ''Go'', confidence_d = 4 / 5,
               bbox_d = \<lparr>x_d = 3, y_d = 13, width_d = 20, height_d = 9,
                          center_x_d = 13, center_y_d = 17\<rparr>\<rparr>,
              \<lparr>text_d = ''gopher'', confidence_d = 4 / 5,
               bbox_d = \<lparr>x_d = 4, y_d = 14, width_d = 60, height_d = 9,
                          center_x_d = 34, center_y_d = 18\<rparr>\<rparr>]"
proof -
  let ?st = "stored img_a 100 (Some table_mixed)"
  let ?rg = "Some (100, 200, 640, 480) :: region option"
  let ?Submit = "\<lparr>bbox = \<lparr>x_bb = 110, y_bb = 210, width_bb = 50, height_bb = 20\<rparr>,
               confidence = 92 / 100, text_em = Some ''Submit''\<rparr>"
  let ?sub = "\<lparr>bbox = \<lparr>x_bb = 300, y_bb = 400, width_bb = 30, height_bb = 15\<rparr>,
               confidence = 20 / 100, text_em = Some ''sub''\<rparr>"
  let ?cache_out = "[\<lparr>bbox = \<lparr>x_bb = 3, y_bb = 13, width_bb = 20, height_bb = 9\<rparr>,
               confidence = 4 / 5, text_em = Some ''Go''\<rparr>,
              \<lparr>bbox = \<lparr>x_bb = 4, y_bb = 14, width_bb = 60, height_bb = 9\<rparr>,
               confidence = 4 / 5, text_em = Some ''gopher''\<rparr>,
              \<lparr>bbox = \<lparr>x_bb = 1, y_bb = 11, width_bb = 20, height_bb = 9\<rparr>,
               confidence = 0, text_em = Some ''go''\<rparr>,
              \<lparr>bbox = \<lparr>x_bb = 5, y_bb = 15, width_bb = 30, height_bb = 9\<rparr>,
               confidence = 0, text_em = Some ''ago''\<rparr>]"
  let ?dicts = "[\<lparr>text_d = ''Go'', confidence_d = 4 / 5,
               bbox_d = \<lparr>x_d = 3, y_d = 13, width_d = 20, height_d = 9,
                          center_x_d = 13, center_y_d = 17\<rparr>\<rparr>,
              \<lparr>text_d = ''gopher'', confidence_d = 4 / 5,
               bbox_d = \<lparr>x_d = 4, y_d = 14, width_d = 60, height_d = 9,
                          center_x_d = 34, center_y_d = 18\<rparr>\<rparr>]"
  have h1: "2 < length (conf_col table_mixed) \<and> conf_col table_mixed ! 2 = ConfNum 80"
    by code_simp
  have h2: "0 < length (conf_col table_mixed) \<and> conf_col table_mixed ! 0 = ConfStr ''??''
            \<and> pf_demo ''??'' = None \<and> ValueError \<in> set [ValueError]"
    by code_simp
  have h4: "pf_demo ''??'' = None" by code_simp
  have h8: "aligned table_mixed" by code_simp
  have h9: "get_cached_ocr init_state 100.2 = None" by code_simp
  have h10: "get_cached_ocr ?st 100.2 = Some table_mixed \<and> aligned table_mixed"
    by code_simp
  have h11: "configure_tesseract tess_ok = Inr ''/usr/bin/tesseract''
            \<and> aligned (ocr_demo img_a ''eng'' None)
            \<and> ConfNone \<notin> set (conf_col (ocr_demo img_a ''eng'' None))"
    by code_simp
  have v8: "concat (map (scan_row_spec pf_demo table_mixed (1 / 2))
                      [0..<length (text_col table_mixed)]) = ?dicts"
    by code_simp
  have v10: "sorted_py confidence True
               (concat (map (text_row_spec pf_demo table_mixed ''GO'' 0 0 0)
                          [0..<length (text_col table_mixed)])) = ?cache_out"
    by code_simp
  have v11: "sorted_py confidence True
               (concat (map (text_row_spec pf_demo (ocr_demo img_a ''eng'' None) ''SUB'' 0.1
                               (fst (region_offset ?rg)) (snd (region_offset ?rg)))
                          [0..<length (text_col (ocr_demo img_a ''eng'' None))]))
             = [?Submit, ?sub]"
    by code_simp
  have t5: "token_conf pf_demo (ocr_demo img_a ''eng'' None) 1 [ValueError] = Inr (20 / 100)"
    by code_simp
  from token_confidence [where data = table_mixed and i = 2 and c = 80 and pf = pf_demo
                           and caught = "[ValueError]"] h1
  have 1: "token_conf pf_demo table_mixed 2 [ValueError] = Inr (80 / 100)" by blast
  from token_confidence [where data = table_mixed and k = 0 and s = "''??''" and pf = pf_demo
                           and caught = "[ValueError]"] h2
  have 2: "token_conf pf_demo table_mixed 0 [ValueError] = Inr 0" by blast
  from token_confidence [where s = "''??''" and pf = pf_demo] h4
  have 4: "conf_or_zero pf_demo (ConfStr ''??'') = 0" by blast
  from token_confidence [where pf = pf_demo and tess = tess_ok and ocr = ocr_demo
                           and st = init_state and text_arg = "''SUB''" and lang = "''eng''"
                           and region = ?rg and mc = "0.1" and img = img_a
                           and cmd = "''/usr/bin/tesseract''"] h11
  have "fst (find_text_on_screen pf_demo tess_ok ocr_demo init_state ''SUB'' ''eng'' ?rg 0.1 img_a)
          = Inr (sorted_py confidence True
               (concat (map (text_row_spec pf_demo (ocr_demo img_a ''eng'' None) ''SUB'' 0.1
                               (fst (region_offset ?rg)) (snd (region_offset ?rg)))
                          [0..<length (text_col (ocr_demo img_a ''eng'' None))])))"
    by blast
  note 11 = this [unfolded v11]
  from token_confidence [where pf = pf_demo and tess = tess_ok and ocr = ocr_demo
                           and st = init_state and text_arg = "''SUB''" and lang = "''eng''"
                           and region = ?rg and mc = "0.1" and img = img_a
                           and ms = "[?Submit, ?sub]"] 11
  have "\<forall>m\<in>set [?Submit, ?sub]. 0.1 \<le> confidence m" by blast
  then have 5: "(0.1 :: real) \<le> 20 / 100" by simp
  from token_confidence [where pf = pf_demo and data = table_mixed and mc = "1 / 2"] h8
  have "ocr_data_to_matches pf_demo table_mixed (1 / 2)
          = Inr (concat (map (scan_row_spec pf_demo table_mixed (1 / 2))
                           [0..<length (text_col table_mixed)]))"
    by blast
  note 8 = this [unfolded v8]
  from token_confidence [where pf = pf_demo and st = init_state and now = "100.2"
                           and text_arg = "''GO''" and mc = 0] h9
  have 9: "find_text_in_ocr_cache pf_demo init_state ''GO'' 0 100.2 = Inr []" by blast
  from token_confidence [where pf = pf_demo and st = ?st and now = "100.2"
                           and text_arg = "''GO''" and mc = 0 and cached = table_mixed] h10
  have "find_text_in_ocr_cache pf_demo ?st ''GO'' 0 100.2
          = Inr (sorted_py confidence True
               (concat (map (text_row_spec pf_demo table_mixed ''GO'' 0 0 0)
                          [0..<length (text_col table_mixed)])))"
    by blast
  note 10 = this [unfolded v10]
  from h1 h2 h4 h8 h9 h10 h11 t5 1 2 4 5 8 9 10 11 show ?thesis by blast
qed

section \<open>Order of the text matches\<close>



section \<open>Conversion of the OCR table\<close>

text \<open>
  C7, as stated, fails: the conversion applies the floor \<open>min_confidence\<close>, whose default
  \<open>0.0\<close> \<open>ocr_full_screen\<close> leaves in place, so a token with a negative score is
  dropped although its text is not blank. The table of \<open>img_b\<close> holds the one token
  \<open>OK\<close> with the score \<open>-1\<close>; the conversion and \<open>ocr_full_screen\<close> return the empty
  list.
\<close>

theorem nonblank_token_dropped:
  "text_col table_neg = [''OK''] \<and> \<not> blank ''OK'' \<and> strip ''OK'' = ''OK''
   \<and> ocr_data_to_matches pf_demo table_neg 0 = Inr []
   \<and> ocr_demo img_b ''eng'' (Some 3) = table_neg
   \<and> fst (ocr_full_screen pf_demo tess_ok ocr_demo init_state ''eng'' True 3 0 img_b 100) = Inr []"
  by code_simp

text \<open>
  C7, amended: for every raw OCR table given to the conversion as \<open>ocr_full_screen\<close>
  uses it, every token whose text is empty or only whitespace is dropped, and so is
  every token whose confidence is below the floor \<open>0.0\<close>, that is every token with a
  negative score; no other token is dropped. On an aligned table the result is, row
  by row and in the order of the table, the dict of every token with non-blank text
  and a confidence of at least \<open>0\<close> (the score over 100, or \<open>0\<close> for a score
  \<open>float\<close> raises on). \<open>ocr_full_screen\<close> returns this conversion of the cached
  payload, or of the table of the new capture.
\<close>

theorem scan_drops_blank_and_negative:
  "(aligned data \<longrightarrow>
      ocr_data_to_matches pf data 0
        = Inr (concat (map (scan_row_spec pf data 0) [0..<length (text_col data)])))
   \<and> (ocr_data_to_matches pf data mc = Inr rs \<longrightarrow>
        (\<forall>d\<in>set rs. \<not> blank (text_d d) \<and> mc \<le> confidence_d d))
   \<and> (aligned data \<and> i < length (text_col data) \<and> \<not> blank (text_col data ! i)
        \<and> 0 \<le> conf_or_zero pf (conf_col data ! i) \<longrightarrow>
        (\<exists>out d. ocr_data_to_matches pf data 0 = Inr out \<and> d \<in> set out
           \<and> text_d d = text_col data ! i
           \<and> confidence_d d = conf_or_zero pf (conf_col data ! i)))
   \<and> fst (ocr_full_screen pf tess ocr st lang use_cache psm now img t_new)
       = (case (if use_cache then get_cached_ocr st now else None) of
            Some cached \<Rightarrow> ocr_data_to_matches pf cached 0
          | None \<Rightarrow>
              (case configure_tesseract tess of
                 Inl e \<Rightarrow> Inl e
               | Inr cmd \<Rightarrow> ocr_data_to_matches pf (ocr img lang (Some psm)) 0))"
proof -
  have 1: "aligned data \<longrightarrow>
      ocr_data_to_matches pf data 0
        = Inr (concat (map (scan_row_spec pf data 0) [0..<length (text_col data)]))"
    by (simp add: ocr_data_to_matches_rows)
  have 2: "ocr_data_to_matches pf data mc = Inr rs \<longrightarrow>
        (\<forall>d\<in>set rs. \<not> blank (text_d d) \<and> mc \<le> confidence_d d)"
  proof (intro impI ballI)
    fix d
    assume r: "ocr_data_to_matches pf data mc = Inr rs" and d: "d \<in> set rs"
    from ocr_data_to_matches_result [OF r] d
    obtain j where "d \<in> set (row_out (ocr_data_body pf data mc) j)"
      by auto
    from ocr_data_body_out [OF this]
    show "\<not> blank (text_d d) \<and> mc \<le> confidence_d d"
      by blast
  qed
  have 3: "aligned data \<and> i < length (text_col data) \<and> \<not> blank (text_col data ! i)
        \<and> 0 \<le> conf_or_zero pf (conf_col data ! i) \<longrightarrow>
        (\<exists>out d. ocr_data_to_matches pf data 0 = Inr out \<and> d \<in> set out
           \<and> text_d d = text_col data ! i
           \<and> confidence_d d = conf_or_zero pf (conf_col data ! i))"
  proof
    assume a: "aligned data \<and> i < length (text_col data) \<and> \<not> blank (text_col data ! i)
        \<and> 0 \<le> conf_or_zero pf (conf_col data ! i)"
    let ?x = "left_col data ! i" and ?y = "top_col data ! i"
    let ?w = "width_col data ! i" and ?h = "height_col data ! i"
    let ?d = "\<lparr>text_d = text_col data ! i, confidence_d = conf_or_zero pf (conf_col data ! i),
               bbox_d = \<lparr>x_d = ?x, y_d = ?y, width_d = ?w, height_d = ?h,
                          center_x_d = ?x + ?w div 2, center_y_d = ?y + ?h div 2\<rparr>\<rparr>"
    from a have "?d \<in> set (scan_row_spec pf data 0 i)"
      by (simp add: scan_row_spec_def Let_def)
    moreover from a have "i \<in> set [0..<length (text_col data)]"
      by simp
    ultimately
    have "?d \<in> set (concat (map (scan_row_spec pf data 0) [0..<length (text_col data)]))"
      unfolding set_concat set_map by blast
    with a 1 show "\<exists>out d. ocr_data_to_matches pf data 0 = Inr out \<and> d \<in> set out
           \<and> text_d d = text_col data ! i
           \<and> confidence_d d = conf_or_zero pf (conf_col data ! i)"
      by (intro exI [of _ "concat (map (scan_row_spec pf data 0) [0..<length (text_col data)])"]
                exI [of _ ?d]) simp
  qed
  have 4: "fst (ocr_full_screen pf tess ocr st lang use_cache psm now img t_new)
       = (case (if use_cache then get_cached_ocr st now else None) of
            Some cached \<Rightarrow> ocr_data_to_matches pf cached 0
          | None \<Rightarrow>
              (case configure_tesseract tess of
                 Inl e \<Rightarrow> Inl e
               | Inr cmd \<Rightarrow> ocr_data_to_matches pf (ocr img lang (Some psm)) 0))"
    by (simp add: ocr_full_screen_def capture_forced fresh_capture_def ocr_attach_def
                  image_cf_new_frame Let_def split: option.splits sum.splits)
  from 1 2 3 4 show ?thesis by blast
qed

theorem scan_drops_blank_and_negative_witness:
  "aligned table_mixed
   \<and> ocr_data_to_matches pf_demo table_mixed 0
       = Inr [\<lparr>text_d = ''go'', confidence_d = 0,
               bbox_d = \<lparr>x_d = 1, y_d = 11, width_d = 20, height_d = 9,
                          center_x_d = 11, center_y_d = 15\<rparr>\<rparr>,
              \<lparr>text_d = ''Go'', confidence_d = 4 / 5,
               bbox_d = \<lparr>x_d = 3, y_d = 13, width_d = 20, height_d = 9,
                          center_x_d = 13, center_y_d = 17\<rparr>\<rparr>,
              \<lparr>text_d = ''gopher'', confidence_d = 4 / 5,
               bbox_d = \<lparr>x_d = 4, y_d = 14, width_d = 60, height_d = 9,
                          center_x_d = 34, center_y_d = 18\<rparr>\<rparr>,
              \<lparr>text_d = ''ago'', confidence_d = 0,
               bbox_d = \<lparr>x_d = 5, y_d = 15, width_d = 30, height_d = 9,
                          center_x_d = 20, center_y_d = 19\<rparr>\<rparr>]
   \<and> blank (text_col table_mixed ! 1)
   \<and> \<not> blank (text_col table_mixed ! 2)
   \<and> 0 \<le> conf_or_zero pf_demo (conf_col table_mixed ! 2)
   \<and> (\<exists>out d. ocr_data_to_matches pf_demo table_mixed 0 = Inr out \<and> d \<in> set out
         \<and> text_d d = ''Go'' \<and> confidence_d d = 4 / 5)
   \<and> aligned table_neg
   \<and> ocr_data_to_matches pf_demo table_neg 0 = Inr []"
proof -
  have h1: "aligned table_mixed" by code_simp
  have v1: "concat (map (scan_row_spec pf_demo table_mixed 0) [0..<length (text_col table_mixed)])
       = [\<lparr>text_d = ''go'', confidence_d = 0,
               bbox_d = \<lparr>x_d = 1, y_d = 11, width_d = 20, height_d = 9,
                          center_x_d = 11, center_y_d = 15\<rparr>\<rparr>,
              \<lparr>text_d = ''Go'', confidence_d = 4 / 5,
               bbox_d = \<lparr>x_d = 3, y_d = 13, width_d = 20, height_d = 9,
                          center_x_d = 13, center_y_d = 17\<rparr>\<rparr>,
              \<lparr>text_d = ''gopher'', confidence_d = 4 / 5,
               bbox_d = \<lparr>x_d = 4, y_d = 14, width_d = 60, height_d = 9,
                          center_x_d = 34, center_y_d = 18\<rparr>\<rparr>,
              \<lparr>text_d = ''ago'', confidence_d = 0,
               bbox_d = \<lparr>x_d = 5, y_d = 15, width_d = 30, height_d = 9,
                          center_x_d = 20, center_y_d = 19\<rparr>\<rparr>]"
    by code_simp
  have h3: "aligned table_mixed \<and> 2 < length (text_col table_mixed)
            \<and> \<not> blank (text_col table_mixed ! 2)
            \<and> 0 \<le> conf_or_zero pf_demo (conf_col table_mixed ! 2)"
    by code_simp
  have b: "blank (text_col table_mixed ! 1)" by code_simp
  have e: "text_col table_mixed ! 2 = ''Go''" "conf_or_zero pf_demo (conf_col table_mixed ! 2) = 4 / 5"
    by code_simp+
  have h4: "aligned table_neg" by code_simp
  have v4: "concat (map (scan_row_spec pf_demo table_neg 0) [0..<length (text_col table_neg)]) = []"
    by code_simp
  from scan_drops_blank_and_negative [where pf = pf_demo and data = table_mixed] h1
  have "ocr_data_to_matches pf_demo table_mixed 0
          = Inr (concat (map (scan_row_spec pf_demo table_mixed 0) [0..<length (text_col table_mixed)]))"
    by blast
  note 1 = this [unfolded v1]
  from scan_drops_blank_and_negative [where pf = pf_demo and data = table_mixed and i = 2] h3
  have "\<exists>out d. ocr_data_to_matches pf_demo table_mixed 0 = Inr out \<and> d \<in> set out
           \<and> text_d d = text_col table_mixed ! 2
           \<and> confidence_d d = conf_or_zero pf_demo (conf_col table_mixed ! 2)"
    by blast
  note 3 = this [unfolded e]
  from scan_drops_blank_and_negative [where pf = pf_demo and data = table_neg] h4
  have "ocr_data_to_matches pf_demo table_neg 0
          = Inr (concat (map (scan_row_spec pf_demo table_neg 0) [0..<length (text_col table_neg)]))"
    by blast
  note 4 = this [unfolded v4]
  from h1 h3 b h4 1 3 4 show ?thesis by blast
qed

end
